theory Spec2Isabelle
  imports Main
begin

section \<open>Values, errors and the objects the engine works on\<close>

text \<open>
  The engine of \<^verbatim>\<open>vectorized.ts\<close> routes a bulk call either to a registered bulk
  override or to a loop over the scalar method. The values it handles are the
  positional arguments of one call: a vectorized position holds an array, any other
  position an arbitrary value. \<open>Atom\<close> stands for a value that has no \<^verbatim>\<open>length\<close>
  property and no indexed elements (a number, a boolean); \<open>Undefined\<close> is what a read
  past the end of an argument list or of an array gives.
\<close>

datatype 'a val = Undefined | Atom 'a | Arr "'a val list"

text \<open>
  \<open>Error msg\<close> is \<^verbatim>\<open>new Error(msg)\<close> thrown by the engine, \<open>TypeError\<close> the exception of
  the JavaScript runtime on a property read of \<^verbatim>\<open>undefined\<close>, and \<open>Thrown e\<close> whatever a
  scalar method or an override throws.
\<close>

datatype 'e error = Error string | TypeError | Thrown 'e

abbreviation ConfigurationError :: "'e error" where
  "ConfigurationError \<equiv> Error ''Must have at least one vectorized parameter''"

abbreviation LengthMismatchError :: "'e error" where
  "LengthMismatchError \<equiv> Error ''Vector lengths not equal''"

text \<open>A property key is a string or a symbol (its identity and its description).\<close>

datatype propkey = Str string | Sym nat string

fun String :: "propkey \<Rightarrow> string" where
  "String (Str s) = s"
| "String (Sym i d) = ''Symbol('' @ d @ '')''"

text \<open>
  A function value receives its \<^verbatim>\<open>this\<close>, its arguments and the state of the rest of
  the program; it returns or throws, and leaves a new state. The state is everything
  the function may read or change apart from the argument values themselves.
\<close>

type_synonym ('t, 'a, 'e, 's) fn =
  "'t \<Rightarrow> 'a val list \<Rightarrow> 's \<Rightarrow> ('e error + 'a val) \<times> 's"

text \<open>What the decorator stores: a member name, or a function captured as it is.\<close>

datatype ('t, 'a, 'e, 's) special = Named propkey | Function "('t, 'a, 'e, 's) fn"

text \<open>
  The object world at the time of a call: the metadata store of \<^verbatim>\<open>reflect-metadata\<close>
  under the key \<^verbatim>\<open>vectorizedKey\<close>, the prototype chain of an object (the object first),
  and the property read \<^verbatim>\<open>target[key]\<close>. Only function-valued members are modelled: a
  member is a function or it is absent.
\<close>

record ('t, 'a, 'e, 's) runtime =
  metadataStore :: "'t \<times> propkey \<rightharpoonup> ('t, 'a, 'e, 's) special"
  prototypeChain :: "'t \<Rightarrow> 't list"
  propertyGet :: "'t \<Rightarrow> propkey \<Rightarrow> ('t, 'a, 'e, 's) fn option"

section \<open>The registry: \<^verbatim>\<open>vectorized\<close> and \<^verbatim>\<open>Reflect.getMetadata\<close>\<close>

definition defineMetadata ::
  "('t, 'a, 'e, 's) special \<Rightarrow> 't \<Rightarrow> propkey \<Rightarrow>
   ('t \<times> propkey \<rightharpoonup> ('t, 'a, 'e, 's) special) \<Rightarrow> ('t \<times> propkey \<rightharpoonup> ('t, 'a, 'e, 's) special)" where
  "defineMetadata v target propertyKey md = md((target, propertyKey) \<mapsto> v)"

text \<open>\<^verbatim>\<open>Reflect.getMetadata\<close> reads the object's own entry, then its prototypes' in turn.\<close>

fun getMetadata ::
  "('t \<times> propkey \<rightharpoonup> ('t, 'a, 'e, 's) special) \<Rightarrow> 't list \<Rightarrow> propkey \<Rightarrow>
   ('t, 'a, 'e, 's) special option" where
  "getMetadata md [] propertyKey = None"
| "getMetadata md (ob # obs) propertyKey =
     (case md (ob, propertyKey) of
        Some v \<Rightarrow> Some v
      | None \<Rightarrow> getMetadata md obs propertyKey)"

text \<open>
  The decorator: \<^verbatim>\<open>specialVersion ?? `${String(propertyKey)}_vectorized`\<close> is stored for
  \<open>(target, propertyKey)\<close>.
\<close>

definition vectorized ::
  "('t, 'a, 'e, 's) special option \<Rightarrow> 't \<Rightarrow> propkey \<Rightarrow>
   ('t \<times> propkey \<rightharpoonup> ('t, 'a, 'e, 's) special) \<Rightarrow> ('t \<times> propkey \<rightharpoonup> ('t, 'a, 'e, 's) special)" where
  "vectorized specialVersion target propertyKey md =
     defineMetadata
       (case specialVersion of
          Some v \<Rightarrow> v
        | None \<Rightarrow> Named (Str (String propertyKey @ ''_vectorized'')))
       target propertyKey md"

section \<open>Reads and writes of JavaScript arrays\<close>

text \<open>\<^verbatim>\<open>xs[i]\<close> on an argument list: \<^verbatim>\<open>undefined\<close> past the end.\<close>

definition js_get :: "'a val list \<Rightarrow> nat \<Rightarrow> 'a val" where
  "js_get xs i = (if i < length xs then xs ! i else Undefined)"

text \<open>\<^verbatim>\<open>xs[i] = v\<close>: past the end the array grows, the holes reading as \<^verbatim>\<open>undefined\<close>.\<close>

definition js_set :: "'a val list \<Rightarrow> nat \<Rightarrow> 'a val \<Rightarrow> 'a val list" where
  "js_set xs i v =
     (if i < length xs then xs[i := v]
      else xs @ replicate (i - length xs) Undefined @ [v])"

text \<open>
  \<^verbatim>\<open>v.length\<close>: a TypeError on \<^verbatim>\<open>undefined\<close>, \<^verbatim>\<open>undefined\<close> (here \<open>None\<close>) on a value
  without that property, the number of elements of an array.
\<close>

fun js_length :: "'a val \<Rightarrow> 'e error + nat option" where
  "js_length Undefined = Inl TypeError"
| "js_length (Atom a) = Inr None"
| "js_length (Arr xs) = Inr (Some (length xs))"

text \<open>\<^verbatim>\<open>v[i]\<close> on a value: a TypeError on \<^verbatim>\<open>undefined\<close>.\<close>

fun js_elem :: "'a val \<Rightarrow> nat \<Rightarrow> 'e error + 'a val" where
  "js_elem Undefined i = Inl TypeError"
| "js_elem (Atom a) i = Inr Undefined"
| "js_elem (Arr xs) i = Inr (js_get xs i)"

text \<open>
  The length of \<^verbatim>\<open>new Array(len)\<close>: \<open>len\<close> holes for a number, and the one-element
  array \<^verbatim>\<open>[undefined]\<close> for \<^verbatim>\<open>new Array(undefined)\<close>.
\<close>

fun new_Array_length :: "nat option \<Rightarrow> nat" where
  "new_Array_length (Some n) = n"
| "new_Array_length None = 1"

text \<open>\<^verbatim>\<open>xs.map(f)\<close> where \<open>f\<close> may throw: the first exception ends the map.\<close>

fun mapE :: "('x \<Rightarrow> 'e + 'y) \<Rightarrow> 'x list \<Rightarrow> 'e + 'y list" where
  "mapE f [] = Inr []"
| "mapE f (x # xs) =
     (case f x of
        Inl e \<Rightarrow> Inl e
      | Inr y \<Rightarrow> (case mapE f xs of Inl e \<Rightarrow> Inl e | Inr ys \<Rightarrow> Inr (y # ys)))"

section \<open>\<^verbatim>\<open>ArrayVectorFunction\<close>\<close>

text \<open>
  The fields of an engine. \<open>methodName\<close> is the field \<^verbatim>\<open>method\<close> of the base class
  \<^verbatim>\<open>VectorFunction\<close>: the name of the scalar method.
\<close>

record ArrayVectorFunction =
  methodName :: propkey
  vectorizedParameterFlags :: "bool list"
  sliceIndex :: nat
  vectorizedParameterIndices :: "nat list"

text \<open>
  \<^verbatim>\<open>Math.min(...xs)\<close> on a non-empty list. (On the empty list it is \<^verbatim>\<open>Infinity\<close>; the
  constructor throws before it gets there.)
\<close>

fun Math_min :: "nat list \<Rightarrow> nat" where
  "Math_min (x # xs) = fold min xs x"

definition flaggedIndices :: "bool list \<Rightarrow> nat list" where
  "flaggedIndices flags =
     map snd (filter fst (zip flags [0..<length flags]))"

definition constructor :: "propkey \<Rightarrow> bool list \<Rightarrow> 'e error + ArrayVectorFunction" where
  "constructor m flags =
     (let indices = flaggedIndices flags in
      if length indices = 0 then Inl ConfigurationError
      else Inr \<lparr> methodName = m, vectorizedParameterFlags = flags,
                 sliceIndex = Math_min indices,
                 vectorizedParameterIndices = indices \<rparr>)"

text \<open>
  The length check (\<^verbatim>\<open>if (this.vectorizedParameterIndices.length > 1) ...\<close>), which
  stands at the head of \<^verbatim>\<open>vectorizeSingularCall\<close>.
\<close>

definition checkLengths :: "nat list \<Rightarrow> 'a val list \<Rightarrow> 'e error + unit" where
  "checkLengths indices params =
     (if length indices > 1 then
        (case mapE (\<lambda>index. js_length (js_get params index)) indices of
           Inl e \<Rightarrow> Inl e
         | Inr lengths \<Rightarrow>
             if list_ex (\<lambda>len. len \<noteq> lengths ! 0) lengths then Inl LengthMismatchError
             else Inr ())
      else Inr ())"

text \<open>
  The inner loop of one iteration \<open>i\<close>: for each \<open>vectorizedParameterIndexIndex\<close> in turn,
  \<^verbatim>\<open>dynamicArgs[vectorizedParameterIndex - this.sliceIndex] = items[vectorizedParameterIndexIndex][i]\<close>.
  The two fields of \<^verbatim>\<open>this\<close> it reads are its first two arguments. \<^verbatim>\<open>sliceIndex\<close> is the
  least of the indices (\<open>constructed_indices\<close> below), so the difference is a natural
  number.
\<close>

fun populate ::
  "nat list \<Rightarrow> nat \<Rightarrow> 'a val list \<Rightarrow> nat \<Rightarrow> nat list \<Rightarrow> 'a val list \<Rightarrow> 'e error + 'a val list" where
  "populate indices slice items i [] dynamicArgs = Inr dynamicArgs"
| "populate indices slice items i (vectorizedParameterIndexIndex # rest) dynamicArgs =
     (let vectorizedParameterIndex = indices ! vectorizedParameterIndexIndex in
      case js_elem (js_get items vectorizedParameterIndexIndex) i of
        Inl e \<Rightarrow> Inl e
      | Inr v \<Rightarrow>
          populate indices slice items i rest
            (js_set dynamicArgs (vectorizedParameterIndex - slice) v))"

text \<open>
  The outer loop over \<open>i\<close>: populate the dynamic window, call the bound method, store the
  result at \<open>i\<close>. An exception of the method leaves the loop at once.
\<close>

fun elementLoop ::
  "nat list \<Rightarrow> nat \<Rightarrow> 'a val list \<Rightarrow> ('a val list \<Rightarrow> 's \<Rightarrow> ('e error + 'a val) \<times> 's) \<Rightarrow>
   nat list \<Rightarrow> 'a val list \<Rightarrow> 'a val list \<Rightarrow> 's \<Rightarrow> ('e error + 'a val) \<times> 's" where
  "elementLoop indices slice items method_bound [] dynamicArgs result s = (Inr (Arr result), s)"
| "elementLoop indices slice items method_bound (i # rest) dynamicArgs result s =
     (case populate indices slice items i [0..<length indices] dynamicArgs of
        Inl e \<Rightarrow> (Inl e, s)
      | Inr dynamicArgs' \<Rightarrow>
          (case method_bound dynamicArgs' s of
             (Inl e, s') \<Rightarrow> (Inl e, s')
           | (Inr r, s') \<Rightarrow>
               elementLoop indices slice items method_bound rest dynamicArgs' (js_set result i r) s'))"

text \<open>
  The body after the length check (from \<^verbatim>\<open>const items = ...\<close> to \<^verbatim>\<open>return result\<close>).
  \<open>singularMethod\<close> is \<^verbatim>\<open>target[this.method]\<close>; \<^verbatim>\<open>bind\<close> on a missing member is a
  TypeError.
\<close>

definition elementwise ::
  "nat list \<Rightarrow> nat \<Rightarrow> 't \<Rightarrow> ('t, 'a, 'e, 's) fn option \<Rightarrow> 'a val list \<Rightarrow> 's \<Rightarrow>
   ('e error + 'a val) \<times> 's" where
  "elementwise indices slice target singularMethod params s =
     (let items = map (js_get params) indices in
      case js_length (js_get items 0) of
        Inl e \<Rightarrow> (Inl e, s)
      | Inr len \<Rightarrow>
          (let result = replicate (new_Array_length len) Undefined;
               staticArgs = take slice params;
               dynamicArgs = drop slice params
           in case singularMethod of
                None \<Rightarrow> (Inl TypeError, s)
              | Some f \<Rightarrow>
                  elementLoop indices slice items (\<lambda>args. f target (staticArgs @ args))
                    [0..<length result] dynamicArgs result s))"

definition vectorizeSingularCall ::
  "ArrayVectorFunction \<Rightarrow> 't \<Rightarrow> ('t, 'a, 'e, 's) fn option \<Rightarrow> 'a val list \<Rightarrow> 's \<Rightarrow>
   ('e error + 'a val) \<times> 's" where
  "vectorizeSingularCall this target singularMethod params s =
     (case checkLengths (vectorizedParameterIndices this) params of
        Inl e \<Rightarrow> (Inl e, s)
      | Inr _ \<Rightarrow>
          elementwise (vectorizedParameterIndices this) (sliceIndex this)
            target singularMethod params s)"

section \<open>\<^verbatim>\<open>VectorFunction.call\<close>\<close>

text \<open>A string is truthy unless it is empty; a symbol and a function always are.\<close>

fun truthy :: "('t, 'a, 'e, 's) special \<Rightarrow> bool" where
  "truthy (Named (Str s)) = (s \<noteq> [])"
| "truthy (Named (Sym i d)) = True"
| "truthy (Function f) = True"

definition specializedFunction ::
  "('t, 'a, 'e, 's) runtime \<Rightarrow> propkey \<Rightarrow> 't \<Rightarrow> ('t, 'a, 'e, 's) fn option" where
  "specializedFunction rt m target =
     (case getMetadata (metadataStore rt) (prototypeChain rt target) m of
        None \<Rightarrow> None
      | Some specialized \<Rightarrow>
          if truthy specialized then
            (case specialized of
               Function f \<Rightarrow> Some f
             | Named k \<Rightarrow> propertyGet rt target k)
          else None)"

definition call ::
  "('t, 'a, 'e, 's) runtime \<Rightarrow> ArrayVectorFunction \<Rightarrow> 't \<Rightarrow> 'a val list \<Rightarrow> 's \<Rightarrow>
   ('e error + 'a val) \<times> 's" where
  "call rt this target params s =
     (case specializedFunction rt (methodName this) target of
        Some f \<Rightarrow> f target params s
      | None \<Rightarrow>
          vectorizeSingularCall this target (propertyGet rt target (methodName this)) params s)"

section \<open>What the fallback path is to compute\<close>

text \<open>
  The element a vectorized argument contributes to iteration \<open>i\<close>, the argument list of
  the \<open>i\<close>-th scalar invocation (every position that is not in \<open>indices\<close> keeps the
  caller's value), and the scalar method invoked on a list of argument lists one after the
  other, the state threaded through in that order, the first exception ending the run.
\<close>

fun elemOf :: "'a val \<Rightarrow> nat \<Rightarrow> 'a val" where
  "elemOf (Arr xs) i = js_get xs i"
| "elemOf v i = Undefined"

definition elementArgs :: "nat list \<Rightarrow> 'a val list \<Rightarrow> nat \<Rightarrow> 'a val list" where
  "elementArgs indices params i =
     map (\<lambda>j. if j \<in> set indices then elemOf (params ! j) i else params ! j) [0..<length params]"

fun invokeEach :: "('x \<Rightarrow> 's \<Rightarrow> ('e + 'y) \<times> 's) \<Rightarrow> 'x list \<Rightarrow> 's \<Rightarrow> ('e + 'y list) \<times> 's" where
  "invokeEach f [] s = (Inr [], s)"
| "invokeEach f (x # xs) s =
     (case f x s of
        (Inl e, s') \<Rightarrow> (Inl e, s')
      | (Inr y, s') \<Rightarrow>
          (case invokeEach f xs s' of
             (Inl e, s'') \<Rightarrow> (Inl e, s'')
           | (Inr ys, s'') \<Rightarrow> (Inr (y # ys), s'')))"

definition asArray :: "('e + 'a val list) \<times> 's \<Rightarrow> ('e + 'a val) \<times> 's" where
  "asArray r = (case r of (Inl e, s) \<Rightarrow> (Inl e, s) | (Inr ys, s) \<Rightarrow> (Inr (Arr ys), s))"

text \<open>
  The total readings of \<^verbatim>\<open>.length\<close> used to state what the length check compares and how
  many iterations the loop makes, and the invariant of the dynamic window between
  iterations: it has the length of the caller's suffix and agrees with it outside the
  vectorized positions.
\<close>

fun lengthOf :: "'a val \<Rightarrow> nat option" where
  "lengthOf (Arr xs) = Some (length xs)"
| "lengthOf v = None"

definition lengthsDiffer :: "nat list \<Rightarrow> 'a val list \<Rightarrow> bool" where
  "lengthsDiffer indices params =
     (\<exists>idx\<in>set indices. lengthOf (params ! idx) \<noteq> lengthOf (params ! (indices ! 0)))"

definition resultLength :: "nat list \<Rightarrow> 'a val list \<Rightarrow> nat" where
  "resultLength indices params = new_Array_length (lengthOf (params ! (indices ! 0)))"

definition windowInv :: "nat list \<Rightarrow> nat \<Rightarrow> 'a val list \<Rightarrow> 'a val list \<Rightarrow> bool" where
  "windowInv indices slice params dyn =
     (length dyn = length params - slice \<and>
      (\<forall>p<length dyn. slice + p \<notin> set indices \<longrightarrow> dyn ! p = params ! (slice + p)))"

text \<open>
  The same argument list written from the flags: the static prefix, then the dynamic
  window with the \<open>i\<close>-th element at every flagged position.
\<close>

definition scalarArgs :: "bool list \<Rightarrow> nat \<Rightarrow> 'a val list \<Rightarrow> nat \<Rightarrow> 'a val list" where
  "scalarArgs flags slice params i =
     take slice params @
     map (\<lambda>j. if j < length flags \<and> flags ! j then elemOf (params ! j) i else params ! j)
       [slice..<length params]"

section \<open>Scalar methods and object worlds used in the examples\<close>

text \<open>
  Three scalar methods on numbers. They leave the program state alone. On argument lists
  of another shape JavaScript computes \<^verbatim>\<open>NaN\<close>; no example below gets there, and
  \<open>Undefined\<close> stands in.
\<close>

definition square :: "('t, int, 'e, 's) fn" where
  "square target args s =
     (case args of [Atom x] \<Rightarrow> (Inr (Atom (x * x)), s) | _ \<Rightarrow> (Inr Undefined, s))"

definition sub :: "('t, int, 'e, 's) fn" where
  "sub target args s =
     (case args of [Atom a, Atom b] \<Rightarrow> (Inr (Atom (a - b)), s) | _ \<Rightarrow> (Inr Undefined, s))"

definition scaleThenAdd :: "('t, int, 'e, 's) fn" where
  "scaleThenAdd target args s =
     (case args of [Atom k, Atom x] \<Rightarrow> (Inr (Atom (k * x + 1)), s) | _ \<Rightarrow> (Inr Undefined, s))"

text \<open>Objects without any decorator, all with the same members.\<close>

definition plainObjects :: "(propkey \<Rightarrow> ('t, 'a, 'e, 's) fn option) \<Rightarrow> ('t, 'a, 'e, 's) runtime" where
  "plainObjects members =
     \<lparr> metadataStore = Map.empty, prototypeChain = (\<lambda>t. [t]), propertyGet = (\<lambda>t. members) \<rparr>"

text \<open>
  A scalar method observed: \<open>recording f\<close> behaves as \<open>f\<close> and appends the argument list
  of each invocation to a log kept beside the state of \<open>f\<close>.
\<close>

definition recording :: "('t, 'a, 'e, 's) fn \<Rightarrow> ('t, 'a, 'e, 's \<times> 'a val list list) fn" where
  "recording f target args st =
     (case st of (s, log) \<Rightarrow> (case f target args s of (r, s') \<Rightarrow> (r, (s', log @ [args]))))"

text \<open>A scalar method of three arguments, the middle one to be vectorized.\<close>

definition clamp3 :: "('t, int, 'e, 's) fn" where
  "clamp3 target args s =
     (case args of
        [Atom lo, Atom x, Atom hi] \<Rightarrow> (Inr (Atom (max lo (min hi x))), s)
      | _ \<Rightarrow> (Inr Undefined, s))"

section \<open>Two other revisions of the engine\<close>

text \<open>
  The repository also holds two other texts of the engine. In \<^verbatim>\<open>unnamed/part_000\<close> the
  class \<^verbatim>\<open>VectorFunction\<close> takes the list of vectorized positions itself (default
  \<^verbatim>\<open>[0]\<close>) and its \<^verbatim>\<open>call\<close> checks the lengths first, then looks for an override, then
  runs the same loop. The suffix \<open>_ix\<close> marks its fields and functions.
\<close>

record VectorFunction_ix =
  methodName_ix :: propkey
  vectorizedParameterIndices_ix :: "nat list"
  sliceIndex_ix :: nat

text \<open>Its constructor: the same test and the same \<^verbatim>\<open>Math.min\<close>, on the list as given.\<close>

definition constructor_ix :: "propkey \<Rightarrow> nat list option \<Rightarrow> 'e error + VectorFunction_ix" where
  "constructor_ix m indicesArg =
     (let indices = (case indicesArg of None \<Rightarrow> [0] | Some ixs \<Rightarrow> ixs) in
      if length indices = 0 then Inl ConfigurationError
      else Inr \<lparr> methodName_ix = m, vectorizedParameterIndices_ix = indices,
                 sliceIndex_ix = Math_min indices \<rparr>)"

text \<open>
  Its \<^verbatim>\<open>call\<close>. The \<^verbatim>\<open>else\<close> branch is, line for line, the body that
  \<^verbatim>\<open>vectorizeSingularCall\<close> runs after its length check.
\<close>

definition call_ix ::
  "('t, 'a, 'e, 's) runtime \<Rightarrow> VectorFunction_ix \<Rightarrow> 't \<Rightarrow> 'a val list \<Rightarrow> 's \<Rightarrow>
   ('e error + 'a val) \<times> 's" where
  "call_ix rt this target params s =
     (case checkLengths (vectorizedParameterIndices_ix this) params of
        Inl e \<Rightarrow> (Inl e, s)
      | Inr _ \<Rightarrow>
          (case specializedFunction rt (methodName_ix this) target of
             Some f \<Rightarrow> f target params s
           | None \<Rightarrow>
               elementwise (vectorizedParameterIndices_ix this) (sliceIndex_ix this) target
                 (propertyGet rt target (methodName_ix this)) params s))"

text \<open>
  In \<^verbatim>\<open>unnamed/part_001\<close> the class takes one vectorized position (default 0), has no
  length check, and its loop runs to \<^verbatim>\<open>items.length\<close>. The suffix \<open>_single\<close> marks it.
\<close>

record VectorFunction_single =
  methodName_single :: propkey
  vectorizedParameterIndex :: nat

text \<open>Its constructor stores its arguments and cannot fail.\<close>

definition constructor_single :: "propkey \<Rightarrow> nat option \<Rightarrow> VectorFunction_single" where
  "constructor_single m indexArg =
     \<lparr> methodName_single = m,
       vectorizedParameterIndex = (case indexArg of None \<Rightarrow> 0 | Some i \<Rightarrow> i) \<rparr>"

text \<open>Its loop: \<^verbatim>\<open>dynamicArgs[0] = items[i]; result[i] = method(...dynamicArgs)\<close>.\<close>

fun singleLoop ::
  "'a val \<Rightarrow> ('a val list \<Rightarrow> 's \<Rightarrow> ('e error + 'a val) \<times> 's) \<Rightarrow>
   nat list \<Rightarrow> 'a val list \<Rightarrow> 'a val list \<Rightarrow> 's \<Rightarrow> ('e error + 'a val) \<times> 's" where
  "singleLoop items method_bound [] dynamicArgs result s = (Inr (Arr result), s)"
| "singleLoop items method_bound (i # rest) dynamicArgs result s =
     (case js_elem items i of
        Inl e \<Rightarrow> (Inl e, s)
      | Inr v \<Rightarrow>
          (let dynamicArgs' = js_set dynamicArgs 0 v in
           case method_bound dynamicArgs' s of
             (Inl e, s') \<Rightarrow> (Inl e, s')
           | (Inr r, s') \<Rightarrow>
               singleLoop items method_bound rest dynamicArgs' (js_set result i r) s'))"

text \<open>
  Its \<^verbatim>\<open>call\<close>. \<^verbatim>\<open>i < items.length\<close> is false when \<^verbatim>\<open>items.length\<close> is
  \<^verbatim>\<open>undefined\<close>, so the loop then makes no iteration.
\<close>

definition call_single ::
  "('t, 'a, 'e, 's) runtime \<Rightarrow> VectorFunction_single \<Rightarrow> 't \<Rightarrow> 'a val list \<Rightarrow> 's \<Rightarrow>
   ('e error + 'a val) \<times> 's" where
  "call_single rt this target params s =
     (case specializedFunction rt (methodName_single this) target of
        Some f \<Rightarrow> f target params s
      | None \<Rightarrow>
          (let items = js_get params (vectorizedParameterIndex this) in
           case js_length items of
             Inl e \<Rightarrow> (Inl e, s)
           | Inr len \<Rightarrow>
               (let result = replicate (new_Array_length len) Undefined;
                    staticArgs = take (vectorizedParameterIndex this) params;
                    dynamicArgs = drop (vectorizedParameterIndex this) params
                in case propertyGet rt target (methodName_single this) of
                     None \<Rightarrow> (Inl TypeError, s)
                   | Some f \<Rightarrow>
                       singleLoop items (\<lambda>args. f target (staticArgs @ args))
                         [0..<(case len of Some n \<Rightarrow> n | None \<Rightarrow> 0)] dynamicArgs result s)))"

text \<open>
  A bulk override of \<open>sub\<close>, as the tests write it: one output per element of the first
  array (\<open>Undefined\<close> standing for \<^verbatim>\<open>NaN\<close> where the second array is too short).
\<close>

definition sub_vectorized :: "('t, int, 'e, 's) fn" where
  "sub_vectorized target args s =
     (case args of
        [Arr a, Arr b] \<Rightarrow>
          (Inr (Arr (map (\<lambda>i. case (js_get a i, js_get b i) of
                                 (Atom x, Atom y) \<Rightarrow> Atom (x - y)
                               | _ \<Rightarrow> Undefined) [0..<length a])), s)
      | _ \<Rightarrow> (Inl TypeError, s))"

text \<open>
  Object 0 is a prototype on which \<^verbatim>\<open>@vectorized(specialVersion)\<close> decorates the method
  \<^verbatim>\<open>calc\<close>; every other object has it as its prototype.
\<close>

definition inheriting ::
  "(nat, 'a, 'e, 's) special option \<Rightarrow> (nat \<Rightarrow> propkey \<Rightarrow> (nat, 'a, 'e, 's) fn option) \<Rightarrow>
   (nat, 'a, 'e, 's) runtime" where
  "inheriting specialVersion members =
     \<lparr> metadataStore = vectorized specialVersion 0 (Str ''calc'') Map.empty,
       prototypeChain = (\<lambda>t. if t = 0 then [0] else [t, 0]),
       propertyGet = members \<rparr>"

text \<open>Two bulk functions on one array of numbers.\<close>

definition square_vectorized :: "('t, int, 'e, 's) fn" where
  "square_vectorized target args s =
     (case args of
        [Arr xs] \<Rightarrow> (Inr (Arr (map (\<lambda>v. case v of Atom x \<Rightarrow> Atom (x * x) | _ \<Rightarrow> Undefined) xs)), s)
      | _ \<Rightarrow> (Inl TypeError, s))"

definition negate_vectorized :: "('t, int, 'e, 's) fn" where
  "negate_vectorized target args s =
     (case args of
        [Arr xs] \<Rightarrow> (Inr (Arr (map (\<lambda>v. case v of Atom x \<Rightarrow> Atom (- x) | _ \<Rightarrow> Undefined) xs)), s)
      | _ \<Rightarrow> (Inl TypeError, s))"

section \<open>The fallback path on a store of arrays\<close>

text \<open>
  Whether \<^verbatim>\<open>call\<close> writes into an array of its caller depends on which arrays are shared,
  which the lists above cannot show. Here every array lives in a store, at the address
  that is its position in the store; a value holds an array by its address. A new array is
  appended, so an address once given stays valid and arrays are never reused.
\<close>

datatype 'a sval = SUndefined | SAtom 'a | SRef nat

type_synonym 'a store = "'a sval list list"

text \<open>
  A function value on the store: it may read and write any array and make new ones.
\<close>

type_synonym ('t, 'a, 'e, 's) sfn =
  "'t \<Rightarrow> 'a sval list \<Rightarrow> 'a store \<Rightarrow> 's \<Rightarrow> ('e error + 'a sval) \<times> 'a store \<times> 's"

text \<open>A new array: \<^verbatim>\<open>slice\<close>, \<^verbatim>\<open>new Array\<close> and the rest parameter make one.\<close>

definition alloc :: "'a sval list \<Rightarrow> 'a store \<Rightarrow> nat \<times> 'a store" where
  "alloc xs h = (length h, h @ [xs])"

text \<open>The elements of the array at an address (none at an address never given out).\<close>

definition arrayAt :: "'a store \<Rightarrow> nat \<Rightarrow> 'a sval list" where
  "arrayAt h a = (if a < length h then h ! a else [])"

text \<open>\<^verbatim>\<open>xs[i]\<close> and \<^verbatim>\<open>xs[i] = v\<close> on the elements of one array, as \<open>js_get\<close> and \<open>js_set\<close>.\<close>

definition s_get :: "'a sval list \<Rightarrow> nat \<Rightarrow> 'a sval" where
  "s_get xs i = (if i < length xs then xs ! i else SUndefined)"

definition s_set :: "'a sval list \<Rightarrow> nat \<Rightarrow> 'a sval \<Rightarrow> 'a sval list" where
  "s_set xs i v =
     (if i < length xs then xs[i := v]
      else xs @ replicate (i - length xs) SUndefined @ [v])"

text \<open>\<^verbatim>\<open>a[i] = v\<close> through the address of \<open>a\<close>: the one operation that changes an array.\<close>

definition store_write :: "'a store \<Rightarrow> nat \<Rightarrow> nat \<Rightarrow> 'a sval \<Rightarrow> 'a store" where
  "store_write h a i v = h[a := s_set (arrayAt h a) i v]"

text \<open>\<^verbatim>\<open>v.length\<close> and \<^verbatim>\<open>v[i]\<close> on a value, the array read through its address.\<close>

fun s_length :: "'a store \<Rightarrow> 'a sval \<Rightarrow> 'e error + nat option" where
  "s_length h SUndefined = Inl TypeError"
| "s_length h (SAtom a) = Inr None"
| "s_length h (SRef a) = Inr (Some (length (arrayAt h a)))"

fun s_elem :: "'a store \<Rightarrow> 'a sval \<Rightarrow> nat \<Rightarrow> 'e error + 'a sval" where
  "s_elem h SUndefined i = Inl TypeError"
| "s_elem h (SAtom a) i = Inr SUndefined"
| "s_elem h (SRef a) i = Inr (s_get (arrayAt h a) i)"

text \<open>
  The functions of \<^verbatim>\<open>vectorized.ts\<close> once more, statement for statement, on the store.
  \<open>params\<close>, \<open>result\<close>, \<open>staticArgs\<close> and \<open>dynamicArgs\<close> are addresses; \<open>items\<close> and
  \<open>lengths\<close>, which nothing writes after \<^verbatim>\<open>map\<close> has made them, stay lists.
\<close>

definition checkLengths_s :: "nat list \<Rightarrow> 'a store \<Rightarrow> nat \<Rightarrow> 'e error + unit" where
  "checkLengths_s indices h params =
     (if length indices > 1 then
        (case mapE (\<lambda>index. s_length h (s_get (arrayAt h params) index)) indices of
           Inl e \<Rightarrow> Inl e
         | Inr lengths \<Rightarrow>
             if list_ex (\<lambda>len. len \<noteq> lengths ! 0) lengths then Inl LengthMismatchError
             else Inr ())
      else Inr ())"

fun populate_s ::
  "nat list \<Rightarrow> nat \<Rightarrow> 'a sval list \<Rightarrow> nat \<Rightarrow> nat list \<Rightarrow> nat \<Rightarrow> 'a store \<Rightarrow> 'e error + 'a store" where
  "populate_s indices slice items i [] dynamicArgs h = Inr h"
| "populate_s indices slice items i (vectorizedParameterIndexIndex # rest) dynamicArgs h =
     (let vectorizedParameterIndex = indices ! vectorizedParameterIndexIndex in
      case s_elem h (s_get items vectorizedParameterIndexIndex) i of
        Inl e \<Rightarrow> Inl e
      | Inr v \<Rightarrow>
          populate_s indices slice items i rest dynamicArgs
            (store_write h dynamicArgs (vectorizedParameterIndex - slice) v))"

text \<open>
  The spread \<^verbatim>\<open>method(...dynamicArgs)\<close> hands the method the elements of \<open>dynamicArgs\<close> as
  they are then; \<^verbatim>\<open>result[i] = ...\<close> writes into the store the method has left.
\<close>

fun elementLoop_s ::
  "nat list \<Rightarrow> nat \<Rightarrow> 'a sval list \<Rightarrow>
   ('a sval list \<Rightarrow> 'a store \<Rightarrow> 's \<Rightarrow> ('e error + 'a sval) \<times> 'a store \<times> 's) \<Rightarrow>
   nat list \<Rightarrow> nat \<Rightarrow> nat \<Rightarrow> 'a store \<Rightarrow> 's \<Rightarrow> ('e error + 'a sval) \<times> 'a store \<times> 's" where
  "elementLoop_s indices slice items method_bound [] dynamicArgs result h s = (Inr (SRef result), h, s)"
| "elementLoop_s indices slice items method_bound (i # rest) dynamicArgs result h s =
     (case populate_s indices slice items i [0..<length indices] dynamicArgs h of
        Inl e \<Rightarrow> (Inl e, h, s)
      | Inr h1 \<Rightarrow>
          (case method_bound (arrayAt h1 dynamicArgs) h1 s of
             (Inl e, h2, s') \<Rightarrow> (Inl e, h2, s')
           | (Inr r, h2, s') \<Rightarrow>
               elementLoop_s indices slice items method_bound rest dynamicArgs result
                 (store_write h2 result i r) s'))"

text \<open>
  \<^verbatim>\<open>bind(target, ...staticArgs)\<close> copies the elements of \<open>staticArgs\<close> once, into \<open>bound\<close>.
\<close>

definition elementwise_s ::
  "nat list \<Rightarrow> nat \<Rightarrow> 't \<Rightarrow> ('t, 'a, 'e, 's) sfn option \<Rightarrow> nat \<Rightarrow> 'a store \<Rightarrow> 's \<Rightarrow>
   ('e error + 'a sval) \<times> 'a store \<times> 's" where
  "elementwise_s indices slice target singularMethod params h s =
     (let items = map (s_get (arrayAt h params)) indices in
      case s_length h (s_get items 0) of
        Inl e \<Rightarrow> (Inl e, h, s)
      | Inr len \<Rightarrow>
          (case alloc (replicate (new_Array_length len) SUndefined) h of (result, h1) \<Rightarrow>
           case alloc (take slice (arrayAt h1 params)) h1 of (staticArgs, h2) \<Rightarrow>
           case alloc (drop slice (arrayAt h2 params)) h2 of (dynamicArgs, h3) \<Rightarrow>
           case singularMethod of
             None \<Rightarrow> (Inl TypeError, h3, s)
           | Some f \<Rightarrow>
               (let bound = arrayAt h3 staticArgs in
                elementLoop_s indices slice items (\<lambda>args. f target (bound @ args))
                  [0..<length (arrayAt h3 result)] dynamicArgs result h3 s)))"

definition vectorizeSingularCall_s ::
  "ArrayVectorFunction \<Rightarrow> 't \<Rightarrow> ('t, 'a, 'e, 's) sfn option \<Rightarrow> nat \<Rightarrow> 'a store \<Rightarrow> 's \<Rightarrow>
   ('e error + 'a sval) \<times> 'a store \<times> 's" where
  "vectorizeSingularCall_s this target singularMethod params h s =
     (case checkLengths_s (vectorizedParameterIndices this) h params of
        Inl e \<Rightarrow> (Inl e, h, s)
      | Inr _ \<Rightarrow>
          elementwise_s (vectorizedParameterIndices this) (sliceIndex this)
            target singularMethod params h s)"

text \<open>
  \<^verbatim>\<open>call(target, ...params)\<close>: the rest parameter is a new array of the caller's arguments.
  The override and the scalar method, resolved as in \<open>call\<close>, are arguments here.
\<close>

definition call_s ::
  "('t, 'a, 'e, 's) sfn option \<Rightarrow> ('t, 'a, 'e, 's) sfn option \<Rightarrow> ArrayVectorFunction \<Rightarrow>
   't \<Rightarrow> 'a sval list \<Rightarrow> 'a store \<Rightarrow> 's \<Rightarrow> ('e error + 'a sval) \<times> 'a store \<times> 's" where
  "call_s specialized singularMethod this target args h s =
     (case alloc args h of (params, h0) \<Rightarrow>
      case specialized of
        Some f \<Rightarrow> f target (arrayAt h0 params) h0 s
      | None \<Rightarrow> vectorizeSingularCall_s this target singularMethod params h0 s)"

text \<open>The \<^verbatim>\<open>call\<close> of \<^verbatim>\<open>unnamed/part_000\<close> on the store.\<close>

definition call_ix_s ::
  "('t, 'a, 'e, 's) sfn option \<Rightarrow> ('t, 'a, 'e, 's) sfn option \<Rightarrow> VectorFunction_ix \<Rightarrow>
   't \<Rightarrow> 'a sval list \<Rightarrow> 'a store \<Rightarrow> 's \<Rightarrow> ('e error + 'a sval) \<times> 'a store \<times> 's" where
  "call_ix_s specialized singularMethod this target args h s =
     (case alloc args h of (params, h0) \<Rightarrow>
      case checkLengths_s (vectorizedParameterIndices_ix this) h0 params of
        Inl e \<Rightarrow> (Inl e, h0, s)
      | Inr _ \<Rightarrow>
          (case specialized of
             Some f \<Rightarrow> f target (arrayAt h0 params) h0 s
           | None \<Rightarrow>
               elementwise_s (vectorizedParameterIndices_ix this) (sliceIndex_ix this)
                 target singularMethod params h0 s))"

text \<open>\<open>scaleThenAdd\<close> as a function on the store, which it leaves alone.\<close>

definition scaleThenAdd_s :: "('t, int, 'e, 's) sfn" where
  "scaleThenAdd_s target args h s =
     (case args of
        [SAtom k, SAtom x] \<Rightarrow> (Inr (SAtom (k * x + 1)), h, s)
      | _ \<Rightarrow> (Inr SUndefined, h, s))"

section \<open>The constructor\<close>

lemma set_flaggedIndices:
  "set (flaggedIndices flags) = {i. i < length flags \<and> flags ! i}"
  by (force simp: flaggedIndices_def in_set_zip image_iff)

lemma flaggedIndices_empty:
  "(flaggedIndices flags = []) = (True \<notin> set flags)"
proof -
  have "(flaggedIndices flags = []) = (set (flaggedIndices flags) = {})" by simp
  also have "\<dots> = (True \<notin> set flags)"
    unfolding set_flaggedIndices by (auto simp: in_set_conv_nth)
  finally show ?thesis .
qed

lemma Math_min_Min:
  assumes "xs \<noteq> []"
  shows "Math_min xs = Min (set xs)"
proof (cases xs)
  case Nil
  with assms show ?thesis by simp
next
  case (Cons y ys)
  then show ?thesis using Min.set_eq_fold [of y ys] by simp
qed

lemma constructor_Inr:
  "(constructor m flags = (Inr eng :: 'e error + ArrayVectorFunction)) =
   (flaggedIndices flags \<noteq> [] \<and>
    eng = \<lparr> methodName = m, vectorizedParameterFlags = flags,
            sliceIndex = Min (set (flaggedIndices flags)),
            vectorizedParameterIndices = flaggedIndices flags \<rparr>)"
  by (auto simp: constructor_def Let_def Math_min_Min)

lemma constructor_Inl:
  "(constructor m flags = (Inl e :: 'e error + ArrayVectorFunction)) =
   (True \<notin> set flags \<and> e = ConfigurationError)"
  by (auto simp: constructor_def Let_def flaggedIndices_empty)

section \<open>The loops of the fallback path\<close>

lemma js_get_defined:
  "js_get params idx \<noteq> Undefined \<Longrightarrow> idx < length params \<and> js_get params idx = params ! idx"
  by (auto simp: js_get_def split: if_splits)

lemma js_elem_elemOf: "v \<noteq> Undefined \<Longrightarrow> js_elem v i = Inr (elemOf v i)"
  by (cases v) simp_all

lemma js_set_in_range: "p < length xs \<Longrightarrow> js_set xs p v = xs[p := v]"
  by (simp add: js_set_def)

lemma populate_ok:
  assumes wf: "\<forall>idx\<in>set indices. js_get params idx \<noteq> Undefined"
    and sl: "\<forall>idx\<in>set indices. slice \<le> idx"
    and ks: "set ks \<subseteq> {..<length indices}"
    and len: "length dyn = length params - slice"
  shows "\<exists>dyn'. populate indices slice (map (js_get params) indices) i ks dyn
                   = (Inr dyn' :: 'e error + 'a val list) \<and>
           length dyn' = length dyn \<and>
           (\<forall>p<length dyn. dyn' ! p =
              (if slice + p \<in> (!) indices ` set ks then elemOf (params ! (slice + p)) i
               else dyn ! p))"
  using ks len
proof (induction ks arbitrary: dyn)
  case Nil
  then show ?case by simp
next
  case (Cons k ks)
  let ?idx = "indices ! k"
  let ?v = "elemOf (params ! ?idx) i"
  let ?dyn1 = "dyn[?idx - slice := ?v]"
  from Cons.prems have k: "k < length indices" by simp
  then have mem: "?idx \<in> set indices" by simp
  with wf have def: "js_get params ?idx \<noteq> Undefined" by blast
  then have rng: "?idx < length params" and get: "js_get params ?idx = params ! ?idx"
    using js_get_defined by blast+
  from sl mem have le: "slice \<le> ?idx" by blast
  have item: "js_get (map (js_get params) indices) k = params ! ?idx"
    using k get by (simp add: js_get_def)
  have elem: "js_elem (params ! ?idx) i = (Inr ?v :: 'e error + 'a val)"
    using def get js_elem_elemOf by metis
  have pos: "?idx - slice < length dyn" using rng le Cons.prems by simp
  have step: "populate indices slice (map (js_get params) indices) i (k # ks) dyn =
              (populate indices slice (map (js_get params) indices) i ks ?dyn1 :: 'e error + 'a val list)"
    using item elem pos by (simp add: js_set_in_range)
  have "set ks \<subseteq> {..<length indices}" "length ?dyn1 = length params - slice"
    using Cons.prems by simp_all
  from Cons.IH [OF this] obtain dyn' where
    run: "populate indices slice (map (js_get params) indices) i ks ?dyn1 = (Inr dyn' :: 'e error + 'a val list)"
    and l: "length dyn' = length ?dyn1"
    and vals: "\<forall>p<length ?dyn1. dyn' ! p =
              (if slice + p \<in> (!) indices ` set ks then elemOf (params ! (slice + p)) i
               else ?dyn1 ! p)"
    by blast
  have "\<forall>p<length dyn. dyn' ! p =
          (if slice + p \<in> (!) indices ` set (k # ks) then elemOf (params ! (slice + p)) i
           else dyn ! p)"
  proof (intro allI impI)
    fix p assume p: "p < length dyn"
    show "dyn' ! p =
          (if slice + p \<in> (!) indices ` set (k # ks) then elemOf (params ! (slice + p)) i
           else dyn ! p)"
    proof (cases "slice + p \<in> (!) indices ` set ks")
      case True
      then show ?thesis using vals p by simp
    next
      case False
      then have d: "dyn' ! p = ?dyn1 ! p" using vals p by simp
      show ?thesis
      proof (cases "slice + p = ?idx")
        case True
        then have "p = ?idx - slice" by simp
        then show ?thesis using d p True by simp
      next
        case neq: False
        then have "p \<noteq> ?idx - slice" using le by auto
        then show ?thesis using d p neq False by auto
      qed
    qed
  qed
  with run l step show ?case by simp
qed

lemma length_elementArgs [simp]: "length (elementArgs indices params i) = length params"
  by (simp add: elementArgs_def)

lemma nth_elementArgs:
  "j < length params \<Longrightarrow>
   elementArgs indices params i ! j =
     (if j \<in> set indices then elemOf (params ! j) i else params ! j)"
  by (simp add: elementArgs_def)

lemma windowInv_drop: "windowInv indices slice params (drop slice params)"
  by (simp add: windowInv_def)

lemma windowInv_elementArgs:
  "windowInv indices slice params (drop slice (elementArgs indices params i))"
  by (simp add: windowInv_def nth_elementArgs)

lemma populate_all:
  assumes wf: "\<forall>idx\<in>set indices. js_get params idx \<noteq> Undefined"
    and sl: "\<forall>idx\<in>set indices. slice \<le> idx"
    and inv: "windowInv indices slice params dyn"
  shows "populate indices slice (map (js_get params) indices) i [0..<length indices] dyn
           = (Inr (drop slice (elementArgs indices params i)) :: 'e error + 'a val list)"
proof -
  have len: "length dyn = length params - slice" using inv by (simp add: windowInv_def)
  have "set [0..<length indices] \<subseteq> {..<length indices}" by auto
  from populate_ok [OF wf sl this len, of i] obtain dyn' where
    run: "populate indices slice (map (js_get params) indices) i [0..<length indices] dyn
            = (Inr dyn' :: 'e error + 'a val list)"
    and l: "length dyn' = length dyn"
    and vals: "\<forall>p<length dyn. dyn' ! p =
              (if slice + p \<in> (!) indices ` set [0..<length indices]
               then elemOf (params ! (slice + p)) i else dyn ! p)"
    by blast
  have img: "(!) indices ` set [0..<length indices] = set indices"
    by (auto simp: in_set_conv_nth)
  have "dyn' = drop slice (elementArgs indices params i)"
  proof (rule nth_equalityI)
    show "length dyn' = length (drop slice (elementArgs indices params i))"
      using l len by simp
  next
    fix p assume "p < length dyn'"
    then have p: "p < length dyn" using l by simp
    then have sp: "slice + p < length params" using len by simp
    show "dyn' ! p = drop slice (elementArgs indices params i) ! p"
    proof (cases "slice + p \<in> set indices")
      case True
      then show ?thesis using vals p sp img by (simp add: nth_elementArgs)
    next
      case False
      moreover from this inv p have "dyn ! p = params ! (slice + p)"
        by (simp add: windowInv_def)
      ultimately show ?thesis using vals p sp img by (simp add: nth_elementArgs)
    qed
  qed
  with run show ?thesis by simp
qed

lemma elementLoop_run:
  assumes wf: "\<forall>idx\<in>set indices. js_get params idx \<noteq> Undefined"
    and sl: "\<forall>idx\<in>set indices. slice \<le> idx"
  shows "windowInv indices slice params dyn \<Longrightarrow> length result = n \<Longrightarrow> i0 \<le> n \<Longrightarrow>
    elementLoop indices slice (map (js_get params) indices) mb [i0..<n] dyn result s =
      (case invokeEach mb (map (\<lambda>i. drop slice (elementArgs indices params i)) [i0..<n]) s of
         (Inl e, s') \<Rightarrow> (Inl (e :: 'e error), s')
       | (Inr rs, s') \<Rightarrow> (Inr (Arr (take i0 result @ rs)), s'))"
proof (induction "n - i0" arbitrary: i0 dyn result s)
  case 0
  then show ?case by simp
next
  case (Suc d)
  then have lt: "i0 < n" by simp
  then have up: "[i0..<n] = i0 # [Suc i0..<n]" by (simp add: upt_conv_Cons)
  let ?w = "drop slice (elementArgs indices params i0)"
  have pop: "populate indices slice (map (js_get params) indices) i0 [0..<length indices] dyn
               = (Inr ?w :: 'e error + 'a val list)"
    using populate_all [OF wf sl Suc.prems(1)] .
  show ?case
  proof (cases "mb ?w s")
    case (Pair r s1)
    show ?thesis
    proof (cases r)
      case (Inl e)
      then show ?thesis using Pair pop up by simp
    next
      case (Inr v)
      have i0: "i0 < length result" using lt Suc.prems by simp
      have IH: "elementLoop indices slice (map (js_get params) indices) mb [Suc i0..<n] ?w
                   (result[i0 := v]) s1 =
        (case invokeEach mb (map (\<lambda>i. drop slice (elementArgs indices params i)) [Suc i0..<n]) s1 of
           (Inl e, s') \<Rightarrow> (Inl (e :: 'e error), s')
         | (Inr rs, s') \<Rightarrow> (Inr (Arr (take (Suc i0) (result[i0 := v]) @ rs)), s'))"
        using Suc.hyps(1) [of "Suc i0" ?w "result[i0 := v]" s1] Suc.hyps(2) Suc.prems lt
          windowInv_elementArgs [of indices slice params i0]
        by simp
      have tk: "take (Suc i0) (result[i0 := v]) = take i0 result @ [v]"
        using i0 by (simp add: take_Suc_conv_app_nth)
      show ?thesis
        unfolding up using Pair Inr pop IH tk i0
        by (simp add: js_set_in_range split: prod.splits sum.splits)
    qed
  qed
qed

lemma js_length_lengthOf:
  "v \<noteq> Undefined \<Longrightarrow> js_length v = (Inr (lengthOf v) :: 'e error + nat option)"
  by (cases v) simp_all

lemma js_length_Inl: "(js_length v = Inl e) = (v = Undefined \<and> e = TypeError)"
  by (cases v) auto

lemma mapE_lengths_ok:
  "\<forall>idx\<in>set indices. js_get params idx \<noteq> Undefined \<Longrightarrow>
   mapE (\<lambda>index. js_length (js_get params index)) indices =
     (Inr (map (\<lambda>idx. lengthOf (params ! idx)) indices) :: 'e error + nat option list)"
proof (induction indices)
  case Nil
  then show ?case by simp
next
  case (Cons a indices)
  then have "js_get params a \<noteq> Undefined" by simp
  then have "js_length (js_get params a) = (Inr (lengthOf (params ! a)) :: 'e error + nat option)"
    using js_length_lengthOf js_get_defined by metis
  with Cons show ?case by simp
qed

lemma mapE_lengths_fail:
  "\<exists>idx\<in>set indices. js_get params idx = Undefined \<Longrightarrow>
   mapE (\<lambda>index. js_length (js_get params index)) indices =
     (Inl TypeError :: 'e error + nat option list)"
proof (induction indices)
  case Nil
  then show ?case by simp
next
  case (Cons a indices)
  show ?case
  proof (cases "js_get params a = Undefined")
    case True
    then show ?thesis by simp
  next
    case False
    then have "js_length (js_get params a) = (Inr (lengthOf (js_get params a)) :: 'e error + nat option)"
      by (rule js_length_lengthOf)
    moreover from False Cons.prems have "\<exists>idx\<in>set indices. js_get params idx = Undefined" by auto
    ultimately show ?thesis using Cons.IH by simp
  qed
qed

lemma checkLengths_defined:
  assumes "\<forall>idx\<in>set indices. js_get params idx \<noteq> Undefined"
  shows "checkLengths indices params =
     (if 1 < length indices \<and> lengthsDiffer indices params
      then Inl LengthMismatchError else (Inr () :: 'e error + unit))"
proof (cases "1 < length indices")
  case True
  then have ne: "indices \<noteq> []" by auto
  then have "map (\<lambda>idx. lengthOf (params ! idx)) indices ! 0 = lengthOf (params ! (indices ! 0))"
    by (simp add: nth_map)
  then show ?thesis
    using True mapE_lengths_ok [OF assms, where ?'e = 'e]
    by (auto simp: checkLengths_def lengthsDiffer_def list_ex_iff)
next
  case False
  then show ?thesis by (simp add: checkLengths_def)
qed

lemma checkLengths_undefined:
  assumes "\<exists>idx\<in>set indices. js_get params idx = Undefined" "1 < length indices"
  shows "checkLengths indices params = (Inl TypeError :: 'e error + unit)"
  using assms mapE_lengths_fail [OF assms(1), where ?'e = 'e] by (simp add: checkLengths_def)

lemma invokeEach_map: "invokeEach (\<lambda>x. f (h x)) xs s = invokeEach f (map h xs) s"
  by (induction xs arbitrary: s) (auto split: prod.splits sum.splits)

lemma take_elementArgs:
  assumes "\<forall>idx\<in>set indices. slice \<le> idx"
  shows "take slice params @ drop slice (elementArgs indices params i) = elementArgs indices params i"
proof -
  have "take slice (elementArgs indices params i) = take slice params"
  proof (rule nth_equalityI)
    show "length (take slice (elementArgs indices params i)) = length (take slice params)" by simp
  next
    fix j assume "j < length (take slice (elementArgs indices params i))"
    then have j: "j < slice" "j < length params" by simp_all
    with assms have "j \<notin> set indices" by auto
    with j show "take slice (elementArgs indices params i) ! j = take slice params ! j"
      by (simp add: nth_elementArgs)
  qed
  then show ?thesis by (metis append_take_drop_id)
qed

lemma elementwise_defined:
  assumes wf: "\<forall>idx\<in>set indices. js_get params idx \<noteq> Undefined"
    and sl: "\<forall>idx\<in>set indices. slice \<le> idx"
    and ne: "indices \<noteq> []"
  shows "elementwise indices slice target (Some f) params s =
     (asArray (invokeEach (f target)
        (map (elementArgs indices params) [0..<resultLength indices params]) s)
      :: ('e error + 'a val) \<times> 's)"
proof -
  let ?n = "resultLength indices params"
  from ne have i0: "indices ! 0 \<in> set indices" by (cases indices) simp_all
  with wf have d: "js_get params (indices ! 0) \<noteq> Undefined" by blast
  have it: "js_get (map (js_get params) indices) 0 = params ! (indices ! 0)"
    using ne d js_get_defined [OF d] by (simp add: js_get_def)
  have len: "js_length (params ! (indices ! 0)) =
             (Inr (lengthOf (params ! (indices ! 0))) :: 'e error + nat option)"
    using d js_get_defined [OF d] js_length_lengthOf by metis
  have loop: "elementLoop indices slice (map (js_get params) indices)
                (\<lambda>args. f target (take slice params @ args)) [0..<?n]
                (drop slice params) (replicate ?n Undefined) s =
      (case invokeEach (\<lambda>args. f target (take slice params @ args))
              (map (\<lambda>i. drop slice (elementArgs indices params i)) [0..<?n]) s of
         (Inl e, s') \<Rightarrow> (Inl (e :: 'e error), s')
       | (Inr rs, s') \<Rightarrow> (Inr (Arr (take 0 (replicate ?n Undefined) @ rs)), s'))"
    by (rule elementLoop_run [OF wf sl windowInv_drop]) simp_all
  have inv: "invokeEach (\<lambda>args. f target (take slice params @ args))
              (map (\<lambda>i. drop slice (elementArgs indices params i)) [0..<?n]) s =
             invokeEach (f target) (map (elementArgs indices params) [0..<?n]) s"
    using invokeEach_map [of "f target" "\<lambda>args. take slice params @ args"
            "map (\<lambda>i. drop slice (elementArgs indices params i)) [0..<?n]" s]
    by (simp add: comp_def take_elementArgs [OF sl])
  show ?thesis
    using it len loop inv
    by (simp add: elementwise_def Let_def resultLength_def asArray_def cong: sum.case_cong)
qed

lemma elementwise_no_method:
  assumes wf: "\<forall>idx\<in>set indices. js_get params idx \<noteq> Undefined"
    and ne: "indices \<noteq> []"
  shows "elementwise indices slice target None params s =
           ((Inl TypeError, s) :: ('e error + 'a val) \<times> 's)"
proof -
  from ne have i0: "indices ! 0 \<in> set indices" by (cases indices) simp_all
  with wf have d: "js_get params (indices ! 0) \<noteq> Undefined" by blast
  have it: "js_get (map (js_get params) indices) 0 = js_get params (indices ! 0)"
    using ne by (simp add: js_get_def)
  show ?thesis
    using it js_length_lengthOf [OF d, where ?'e = 'e]
    by (simp add: elementwise_def Let_def)
qed

lemma elementwise_undefined:
  assumes "js_get params (indices ! 0) = Undefined" "indices \<noteq> []"
  shows "elementwise indices slice target singularMethod params s = (Inl TypeError, s)"
proof -
  have "js_get (map (js_get params) indices) 0 = js_get params (indices ! 0)"
    using assms(2) by (simp add: js_get_def)
  with assms(1) show ?thesis by (simp add: elementwise_def Let_def)
qed

lemma constructed_fields:
  assumes "constructor m flags = (Inr this :: 'e error + ArrayVectorFunction)"
  shows "methodName this = m" and "vectorizedParameterFlags this = flags"
    and "vectorizedParameterIndices this = flaggedIndices flags"
    and "sliceIndex this = Min (set (flaggedIndices flags))"
    and "flaggedIndices flags \<noteq> []"
  using assms by (simp_all add: constructor_Inr)

lemma constructed_indices:
  assumes "constructor m flags = (Inr this :: 'e error + ArrayVectorFunction)"
  shows "vectorizedParameterIndices this \<noteq> []"
    and "set (vectorizedParameterIndices this) = {i. i < length flags \<and> flags ! i}"
    and "\<forall>idx\<in>set (vectorizedParameterIndices this). sliceIndex this \<le> idx"
    and "sliceIndex this \<in> set (vectorizedParameterIndices this)"
proof -
  note f = constructed_fields [OF assms]
  show "vectorizedParameterIndices this \<noteq> []" using f by simp
  show "set (vectorizedParameterIndices this) = {i. i < length flags \<and> flags ! i}"
    using f by (simp add: set_flaggedIndices)
  show "\<forall>idx\<in>set (vectorizedParameterIndices this). sliceIndex this \<le> idx"
    using f by simp
  show "sliceIndex this \<in> set (vectorizedParameterIndices this)"
    using f Min_in [of "set (flaggedIndices flags)"] by simp
qed

lemma fallback_call:
  "specializedFunction rt (methodName this) target = None \<Longrightarrow>
   call rt this target params s =
     vectorizeSingularCall this target (propertyGet rt target (methodName this)) params s"
  by (simp add: call_def)

lemma vectorizeSingularCall_defined:
  assumes ne: "vectorizedParameterIndices this \<noteq> []"
    and sl: "\<forall>idx\<in>set (vectorizedParameterIndices this). sliceIndex this \<le> idx"
    and wf: "\<forall>idx\<in>set (vectorizedParameterIndices this). js_get params idx \<noteq> Undefined"
    and eq: "\<not> (1 < length (vectorizedParameterIndices this) \<and>
                lengthsDiffer (vectorizedParameterIndices this) params)"
  shows "vectorizeSingularCall this target (Some f) params s =
     (asArray (invokeEach (f target)
        (map (elementArgs (vectorizedParameterIndices this) params)
           [0..<resultLength (vectorizedParameterIndices this) params]) s)
      :: ('e error + 'a val) \<times> 's)"
  using eq
  by (auto simp: vectorizeSingularCall_def checkLengths_defined [OF wf]
        elementwise_defined [OF wf sl ne])

lemma vectorizeSingularCall_mismatch:
  assumes wf: "\<forall>idx\<in>set (vectorizedParameterIndices this). js_get params idx \<noteq> Undefined"
    and "1 < length (vectorizedParameterIndices this)"
    and "lengthsDiffer (vectorizedParameterIndices this) params"
  shows "vectorizeSingularCall this target singularMethod params s =
     ((Inl LengthMismatchError, s) :: ('e error + 'a val) \<times> 's)"
  using assms(2,3)
  by (simp add: vectorizeSingularCall_def checkLengths_defined [OF wf])

lemma vectorizeSingularCall_undefined:
  assumes ne: "vectorizedParameterIndices this \<noteq> []"
    and un: "\<exists>idx\<in>set (vectorizedParameterIndices this). js_get params idx = Undefined"
  shows "vectorizeSingularCall this target singularMethod params s =
     ((Inl TypeError, s) :: ('e error + 'a val) \<times> 's)"
proof (cases "1 < length (vectorizedParameterIndices this)")
  case True
  then show ?thesis
    by (simp add: vectorizeSingularCall_def checkLengths_undefined [OF un True])
next
  case False
  with ne obtain idx where one: "vectorizedParameterIndices this = [idx]"
    by (cases "vectorizedParameterIndices this") auto
  with un have u0: "js_get params (vectorizedParameterIndices this ! 0) = Undefined" by simp
  from False show ?thesis
    by (simp add: vectorizeSingularCall_def checkLengths_def elementwise_undefined [OF u0 ne])
qed

lemma vectorizeSingularCall_no_method:
  assumes ne: "vectorizedParameterIndices this \<noteq> []"
    and wf: "\<forall>idx\<in>set (vectorizedParameterIndices this). js_get params idx \<noteq> Undefined"
    and eq: "\<not> (1 < length (vectorizedParameterIndices this) \<and>
                lengthsDiffer (vectorizedParameterIndices this) params)"
  shows "vectorizeSingularCall this target None params s =
     ((Inl TypeError, s) :: ('e error + 'a val) \<times> 's)"
  using eq
  by (auto simp: vectorizeSingularCall_def checkLengths_defined [OF wf]
        elementwise_no_method [OF wf ne])

lemma elementArgs_scalarArgs:
  assumes "constructor m flags = (Inr this :: 'e error + ArrayVectorFunction)"
  shows "elementArgs (vectorizedParameterIndices this) params i =
         scalarArgs flags (sliceIndex this) params i"
proof (rule nth_equalityI)
  show "length (elementArgs (vectorizedParameterIndices this) params i) =
        length (scalarArgs flags (sliceIndex this) params i)"
    by (simp add: scalarArgs_def)
next
  note ix = constructed_indices [OF assms]
  fix j assume "j < length (elementArgs (vectorizedParameterIndices this) params i)"
  then have j: "j < length params" by simp
  show "elementArgs (vectorizedParameterIndices this) params i ! j =
        scalarArgs flags (sliceIndex this) params i ! j"
  proof (cases "j < sliceIndex this")
    case True
    with ix(3) have "j \<notin> set (vectorizedParameterIndices this)" by auto
    with True j show ?thesis by (simp add: nth_elementArgs scalarArgs_def nth_append)
  next
    case False
    then have "sliceIndex this + (j - sliceIndex this) = j" by simp
    with False j show ?thesis
      by (simp add: nth_elementArgs scalarArgs_def nth_append ix(2))
  qed
qed


lemma arrays_defined:
  assumes con: "constructor m flags = (Inr this :: 'e error + ArrayVectorFunction)"
    and arrs: "\<forall>j<length flags. flags ! j \<longrightarrow> j < length params \<and> (\<exists>xs. params ! j = Arr xs)"
  shows "\<forall>idx\<in>set (vectorizedParameterIndices this). js_get params idx \<noteq> Undefined"
  using arrs by (auto simp: constructed_indices(2) [OF con] js_get_def)

lemma call_fallback_arrays:
  assumes con: "constructor m flags = (Inr this :: 'e error + ArrayVectorFunction)"
    and fb: "specializedFunction rt m target = None"
    and meth: "propertyGet rt target m = Some f"
    and arrs: "\<forall>j<length flags. flags ! j \<longrightarrow>
                 j < length params \<and> (\<exists>xs. params ! j = Arr xs \<and> length xs = n)"
  shows "call rt this target params s =
         (asArray (invokeEach (f target)
            (map (scalarArgs flags (sliceIndex this) params) [0..<n]) s)
          :: ('e error + 'a val) \<times> 's)"
proof -
  note ix = constructed_indices [OF con]
  let ?ix = "vectorizedParameterIndices this"
  have m: "methodName this = m" using constructed_fields(1) [OF con] .
  have len: "\<forall>idx\<in>set ?ix. lengthOf (params ! idx) = Some n"
    using arrs by (auto simp: ix(2))
  have wf: "\<forall>idx\<in>set ?ix. js_get params idx \<noteq> Undefined"
    using arrs by (intro arrays_defined [OF con]) blast
  have i0: "?ix ! 0 \<in> set ?ix" using ix(1) by (cases ?ix) simp_all
  have eq: "\<not> (1 < length ?ix \<and> lengthsDiffer ?ix params)"
    using len i0 by (simp add: lengthsDiffer_def)
  have n: "resultLength ?ix params = n"
    using len i0 by (simp add: resultLength_def)
  have "call rt this target params s = vectorizeSingularCall this target (Some f) params s"
    using fallback_call [of rt this target params s] fb meth m by simp
  also have "\<dots> = asArray (invokeEach (f target) (map (elementArgs ?ix params) [0..<n]) s)"
    using vectorizeSingularCall_defined [OF ix(1) ix(3) wf eq, of target f s] n by simp
  also have "map (elementArgs ?ix params) [0..<n] =
             map (scalarArgs flags (sliceIndex this) params) [0..<n]"
    by (simp add: elementArgs_scalarArgs [OF con])
  finally show ?thesis .
qed

section \<open>The claims\<close>



text \<open>
  C4. A descriptor that flags no position is rejected by the constructor with the error
  ``Must have at least one vectorized parameter'' (the ConfigurationError of the
  specification), whatever the method name: no engine is built, so no call can follow, and
  the descriptor is not replaced by another one.
\<close>
theorem no_vectorized_position_rejected:
  "True \<notin> set flags \<Longrightarrow>
   constructor m flags = (Inl ConfigurationError :: 'e error + ArrayVectorFunction) \<and>
   (\<forall>this. constructor m flags \<noteq> (Inr this :: 'e error + ArrayVectorFunction))"
  by (simp add: constructor_def flaggedIndices_empty)

theorem no_vectorized_position_rejected_witness:
  "True \<notin> set [False, False] \<and>
   constructor (Str ''calc'') [False, False] = (Inl ConfigurationError :: unit error + ArrayVectorFunction)"
  using no_vectorized_position_rejected [of "[False, False]" "Str ''calc''", where ?'e = unit]
  by simp

text \<open>
  C8. The scenario \<open>scaleThenAdd(k, x) = k * x + 1\<close> with \<open>k\<close> static at position 0
  and \<open>x\<close> vectorized at position 1, on an object without any override:
  \<open>call(target, 3, [1, 2, 3])\<close> returns \<open>[4, 7, 10]\<close>.
\<close>
theorem scaleThenAdd_scenario:
  "(case constructor (Str ''scaleThenAdd'') [False, True] of
      Inl e \<Rightarrow> False
    | Inr this \<Rightarrow>
        call (plainObjects [Str ''scaleThenAdd'' \<mapsto> scaleThenAdd]) this (0 :: nat)
          [Atom 3, Arr [Atom 1, Atom 2, Atom 3]] (0 :: nat) =
        ((Inr (Arr [Atom 4, Atom 7, Atom 10]), 0) :: (unit error + int val) \<times> nat))"
  by (simp add: constructor_def flaggedIndices_def call_def specializedFunction_def
        plainObjects_def vectorizeSingularCall_def checkLengths_def elementwise_def
        js_get_def js_set_def scaleThenAdd_def upt_rec)

text \<open>
  C9. On the fallback path, when every vectorized argument is the empty array, \<open>call\<close>
  returns the empty array and leaves the state as it was (so the scalar method, whatever
  it does, was not invoked); no error is raised.
\<close>
theorem empty_arrays_give_empty_result:
  assumes con: "constructor m flags = (Inr this :: 'e error + ArrayVectorFunction)"
    and fb: "specializedFunction rt m target = None"
    and meth: "propertyGet rt target m = Some f"
    and empt: "\<forall>j<length flags. flags ! j \<longrightarrow> j < length params \<and> params ! j = Arr []"
  shows "call rt this target params s = ((Inr (Arr []), s) :: ('e error + 'a val) \<times> 's)"
proof -
  from empt have "\<forall>j<length flags. flags ! j \<longrightarrow>
                 j < length params \<and> (\<exists>xs. params ! j = Arr xs \<and> length xs = 0)"
    by simp
  from call_fallback_arrays [OF con fb meth this, of s] show ?thesis
    by (simp add: asArray_def)
qed

theorem empty_arrays_give_empty_result_witness:
  "call (plainObjects [Str ''calc'' \<mapsto> recording sub])
     \<lparr> methodName = Str ''calc'', vectorizedParameterFlags = [True, True], sliceIndex = 0,
       vectorizedParameterIndices = [0, 1] \<rparr>
     (0 :: nat) [Arr [], Arr []] ((), []) =
   ((Inr (Arr []), ((), [])) :: (unit error + int val) \<times> (unit \<times> int val list list))"
proof -
  let ?rt = "plainObjects [Str ''calc'' \<mapsto> recording sub]
               :: (nat, int, unit, unit \<times> int val list list) runtime"
  let ?this = "\<lparr> methodName = Str ''calc'', vectorizedParameterFlags = [True, True],
       sliceIndex = 0, vectorizedParameterIndices = [0, 1] \<rparr>"
  have con: "constructor (Str ''calc'') [True, True] = (Inr ?this :: unit error + ArrayVectorFunction)"
    by (simp add: constructor_def flaggedIndices_def upt_rec)
  have fb: "specializedFunction ?rt (Str ''calc'') 0 = None"
    by (simp add: specializedFunction_def plainObjects_def)
  have meth: "propertyGet ?rt 0 (Str ''calc'') = Some (recording sub)"
    by (simp add: plainObjects_def)
  have empt: "\<forall>j<length [True, True]. [True, True] ! j \<longrightarrow>
        j < length [Arr [], Arr [] :: int val] \<and> [Arr [], Arr [] :: int val] ! j = Arr []"
    by (simp add: nth_Cons split: nat.splits)
  from empty_arrays_give_empty_result [OF con fb meth empt] show ?thesis .
qed

lemma two_indices:
  assumes "j \<in> set ix" "k \<in> set ix" "j \<noteq> k"
  shows "1 < length ix"
proof -
  have "card {j, k} \<le> card (set ix)" using assms by (intro card_mono) auto
  also have "\<dots> \<le> length ix" by (rule card_length)
  finally show ?thesis using assms(3) by simp
qed

text \<open>
  C3. On the fallback path, when the vectorized arguments are arrays and two of them differ
  in length, \<open>call\<close> fails with ``Vector lengths not equal'' (the LengthMismatchError
  of the specification) and the state is the one it started in: whatever the scalar
  method does when invoked, it was not invoked, and there is no output.
\<close>
theorem length_mismatch_rejected:
  assumes con: "constructor m flags = (Inr this :: 'e error + ArrayVectorFunction)"
    and fb: "specializedFunction rt m target = None"
    and arrs: "\<forall>j<length flags. flags ! j \<longrightarrow> j < length params \<and> (\<exists>xs. params ! j = Arr xs)"
    and j: "j < length flags" "flags ! j" "params ! j = Arr xs"
    and k: "k < length flags" "flags ! k" "params ! k = Arr ys"
    and diff: "length xs \<noteq> length ys"
  shows "call rt this target params s =
         ((Inl LengthMismatchError, s) :: ('e error + 'a val) \<times> 's)"
proof -
  note ix = constructed_indices [OF con]
  let ?ix = "vectorizedParameterIndices this"
  have m: "methodName this = m" using constructed_fields(1) [OF con] .
  have wf: "\<forall>idx\<in>set ?ix. js_get params idx \<noteq> Undefined"
    using arrays_defined [OF con arrs] .
  have jk: "j \<in> set ?ix" "k \<in> set ?ix" "j \<noteq> k"
    using j k diff by (auto simp: ix(2))
  have two: "1 < length ?ix" using two_indices [OF jk] .
  have "lengthOf (params ! j) \<noteq> lengthOf (params ! (?ix ! 0)) \<or>
        lengthOf (params ! k) \<noteq> lengthOf (params ! (?ix ! 0))"
    using j(3) k(3) diff by (cases "lengthOf (params ! (?ix ! 0))") auto
  with jk have df: "lengthsDiffer ?ix params" by (auto simp: lengthsDiffer_def)
  show ?thesis
    using fallback_call [of rt this target params s] fb m
      vectorizeSingularCall_mismatch [OF wf two df]
    by simp
qed

theorem length_mismatch_rejected_witness:
  "call (plainObjects [Str ''calc'' \<mapsto> recording sub])
     \<lparr> methodName = Str ''calc'', vectorizedParameterFlags = [True, True], sliceIndex = 0,
       vectorizedParameterIndices = [0, 1] \<rparr>
     (0 :: nat) [Arr [Atom 5, Atom 5], Arr [Atom 2]] ((), []) =
   ((Inl LengthMismatchError, ((), [])) :: (unit error + int val) \<times> (unit \<times> int val list list))"
proof -
  let ?rt = "plainObjects [Str ''calc'' \<mapsto> recording sub]
               :: (nat, int, unit, unit \<times> int val list list) runtime"
  let ?this = "\<lparr> methodName = Str ''calc'', vectorizedParameterFlags = [True, True],
       sliceIndex = 0, vectorizedParameterIndices = [0, 1] \<rparr>"
  let ?params = "[Arr [Atom 5, Atom 5], Arr [Atom 2]] :: int val list"
  have con: "constructor (Str ''calc'') [True, True] = (Inr ?this :: unit error + ArrayVectorFunction)"
    by (simp add: constructor_def flaggedIndices_def upt_rec)
  have fb: "specializedFunction ?rt (Str ''calc'') 0 = None"
    by (simp add: specializedFunction_def plainObjects_def)
  have arrs: "\<forall>j<length [True, True]. [True, True] ! j \<longrightarrow>
        j < length ?params \<and> (\<exists>xs. ?params ! j = Arr xs)"
    by (simp add: nth_Cons split: nat.splits)
  have diff: "length [Atom 5, Atom (5::int)] \<noteq> length [Atom (2::int)]" by simp
  from length_mismatch_rejected [OF con fb arrs, of 0 "[Atom 5, Atom 5]" 1 "[Atom 2]"]
  show ?thesis by simp
qed

text \<open>
  C7. When the declared override is a name and the target has no member of that name, the
  failed resolution raises nothing: \<open>call\<close> is the elementwise fallback on the scalar
  method.
\<close>
theorem unresolved_name_falls_back:
  assumes "getMetadata (metadataStore rt) (prototypeChain rt target) (methodName this) = Some (Named k)"
    and "propertyGet rt target k = None"
  shows "call rt this target params s =
         vectorizeSingularCall this target (propertyGet rt target (methodName this)) params s"
  using assms by (simp add: call_def specializedFunction_def)

theorem unresolved_name_falls_back_witness:
  "call \<lparr> metadataStore = vectorized None (0 :: nat) (Str ''calc'') Map.empty,
          prototypeChain = (\<lambda>t. if t = 0 then [0] else [t, 0]),
          propertyGet = (\<lambda>t. [Str ''calc'' \<mapsto> square]) \<rparr>
     \<lparr> methodName = Str ''calc'', vectorizedParameterFlags = [True], sliceIndex = 0,
       vectorizedParameterIndices = [0] \<rparr>
     1 [Arr [Atom 2, Atom 3, Atom 4]] (0 :: nat) =
   ((Inr (Arr [Atom 4, Atom 9, Atom 16]), 0) :: (unit error + int val) \<times> nat)"
proof -
  let ?rt = "\<lparr> metadataStore = vectorized None (0 :: nat) (Str ''calc'') Map.empty,
          prototypeChain = (\<lambda>t. if t = 0 then [0] else [t, 0]),
          propertyGet = (\<lambda>t. [Str ''calc'' \<mapsto> square]) \<rparr> :: (nat, int, unit, nat) runtime"
  let ?this = "\<lparr> methodName = Str ''calc'', vectorizedParameterFlags = [True], sliceIndex = 0,
       vectorizedParameterIndices = [0] \<rparr>"
  have md: "getMetadata (metadataStore ?rt) (prototypeChain ?rt 1) (methodName ?this) =
            Some (Named (Str ''calc_vectorized''))"
    by (simp add: vectorized_def defineMetadata_def)
  have none: "propertyGet ?rt 1 (Str ''calc_vectorized'') = None" by simp
  from unresolved_name_falls_back [OF md none] show ?thesis
    by (simp add: vectorizeSingularCall_def checkLengths_def elementwise_def
          js_get_def js_set_def square_def upt_rec)
qed

lemma invokeEach_recording:
  "invokeEach (recording f target) xs (s, log) = (r, (s', log')) \<Longrightarrow>
   \<exists>ys. log' = log @ ys \<and> set ys \<subseteq> set xs"
proof (induction xs arbitrary: s log r s' log')
  case Nil
  then show ?case by simp
next
  case (Cons x xs)
  obtain r1 s1 where f: "f target x s = (r1, s1)" by (cases "f target x s")
  then have step: "recording f target x (s, log) = (r1, (s1, log @ [x]))"
    by (simp add: recording_def)
  show ?case
  proof (cases r1)
    case (Inl e)
    with step Cons.prems have "log' = log @ [x]" by simp
    then show ?thesis by (intro exI [of _ "[x]"]) simp
  next
    case (Inr y)
    obtain r2 s2 log2 where rest: "invokeEach (recording f target) xs (s1, log @ [x]) = (r2, (s2, log2))"
      by (metis surj_pair)
    from Cons.IH [OF rest] obtain ys where ys: "log2 = (log @ [x]) @ ys" "set ys \<subseteq> set xs"
      by blast
    have "log' = log2"
      using Cons.prems step Inr rest by (auto split: sum.splits)
    with ys show ?thesis by auto
  qed
qed

lemma sliceIndex_lowest:
  assumes con: "constructor m flags = (Inr this :: 'e error + ArrayVectorFunction)"
  shows "sliceIndex this < length flags" and "flags ! sliceIndex this"
    and "\<forall>j<sliceIndex this. \<not> (j < length flags \<and> flags ! j)"
proof -
  note ix = constructed_indices [OF con]
  from ix(2,4) show "sliceIndex this < length flags" "flags ! sliceIndex this" by auto
  show "\<forall>j<sliceIndex this. \<not> (j < length flags \<and> flags ! j)"
  proof (intro allI impI notI)
    fix j assume "j < sliceIndex this" "j < length flags \<and> flags ! j"
    with ix(2,3) show False by fastforce
  qed
qed

lemma invokeEach_recording_exact:
  "invokeEach (recording f target) xs (s, log) = (r, (s', log')) \<Longrightarrow>
   \<exists>k\<le>length xs. log' = log @ take k xs \<and>
      (case r of Inr ys \<Rightarrow> k = length xs | Inl e \<Rightarrow> 0 < k)"
proof (induction xs arbitrary: s log r s' log')
  case Nil
  then show ?case by auto
next
  case (Cons x xs)
  obtain r1 s1 where f: "f target x s = (r1, s1)" by (cases "f target x s")
  then have step: "recording f target x (s, log) = (r1, (s1, log @ [x]))"
    by (simp add: recording_def)
  show ?case
  proof (cases r1)
    case (Inl e)
    with step Cons.prems have "log' = log @ [x]" "r = Inl e" by simp_all
    then show ?thesis by (intro exI [of _ 1]) simp
  next
    case (Inr y)
    obtain r2 s2 log2 where rest:
      "invokeEach (recording f target) xs (s1, log @ [x]) = (r2, (s2, log2))"
      by (metis surj_pair)
    from Cons.IH [OF rest] obtain k where k: "k \<le> length xs" "log2 = (log @ [x]) @ take k xs"
      "(case r2 of Inr ys \<Rightarrow> k = length xs | Inl e \<Rightarrow> 0 < k)"
      by blast
    have res: "log' = log2" "r = (case r2 of Inl e \<Rightarrow> Inl e | Inr ys \<Rightarrow> Inr (y # ys))"
      using Cons.prems step Inr rest by (auto split: sum.splits)
    show ?thesis
      using k res by (intro exI [of _ "Suc k"]) (auto split: sum.splits)
  qed
qed

lemma recorded_log:
  assumes con: "constructor m flags = (Inr this :: 'e error + ArrayVectorFunction)"
    and fb: "specializedFunction rt m target = None"
    and meth: "propertyGet rt target m = Some (recording f)"
    and run: "call rt this target params (s, []) =
              ((r, (s', log)) :: ('e error + 'a val) \<times> ('s \<times> 'a val list list))"
    and arrs: "\<forall>j<length flags. flags ! j \<longrightarrow>
                 j < length params \<and> (\<exists>xs. params ! j = Arr xs \<and> length xs = n)"
  shows "log = map (scalarArgs flags (sliceIndex this) params) [0..<length log] \<and>
         length log \<le> n \<and>
         (case r of Inr v \<Rightarrow> length log = n | Inl e \<Rightarrow> 0 < length log)"
proof -
  let ?xs = "map (scalarArgs flags (sliceIndex this) params) [0..<n]"
  obtain r0 s0 log0 where inv: "invokeEach (recording f target) ?xs (s, []) = (r0, (s0, log0))"
    by (metis surj_pair)
  have c: "call rt this target params (s, []) = asArray (r0, (s0, log0))"
    using call_fallback_arrays [OF con fb meth arrs, of "(s, [])"] inv by simp
  with run have eq: "log = log0" "r = (case r0 of Inl e \<Rightarrow> Inl e | Inr ys \<Rightarrow> Inr (Arr ys))"
    by (auto simp: asArray_def split: sum.splits)
  from invokeEach_recording_exact [OF inv] obtain k where
    k0: "k \<le> length ?xs" "log0 = [] @ take k ?xs"
      "(case r0 of Inr ys \<Rightarrow> k = length ?xs | Inl e \<Rightarrow> 0 < k)"
    by blast
  then have k: "k \<le> n" "log0 = take k ?xs" "(case r0 of Inr ys \<Rightarrow> k = n | Inl e \<Rightarrow> 0 < k)"
    by (simp_all cong: sum.case_cong)
  have "take k ?xs = map (scalarArgs flags (sliceIndex this) params) [0..<k]"
    using k(1) by (simp add: take_map)
  with k eq show ?thesis by (auto split: sum.splits)
qed

text \<open>
  C5. \<open>sliceIndex\<close> is the lowest flagged position. On the fallback path every
  invocation of the scalar method (they are recorded, in order, by \<open>recording\<close>)
  receives an argument list as long as the caller's, with the caller's static prefix
  unchanged and with the caller's value at every position that is not flagged, before and
  after \<open>sliceIndex\<close> alike. When the vectorized arguments are arrays of length \<open>n\<close>,
  the invocations are exactly these: the \<open>i\<close>-th one, for \<open>i = 0, 1, \<dots>\<close> in this
  order, receives the static prefix followed by the dynamic window with the \<open>i\<close>-th
  elements substituted; there are \<open>n\<close> of them when the call returns, and at least one
  and at most \<open>n\<close> when the scalar method throws.
\<close>
theorem static_arguments_pass_through:
  assumes con: "constructor m flags = (Inr this :: 'e error + ArrayVectorFunction)"
    and fb: "specializedFunction rt m target = None"
    and meth: "propertyGet rt target m = Some (recording f)"
    and run: "call rt this target params (s, []) =
              ((r, (s', log)) :: ('e error + 'a val) \<times> ('s \<times> 'a val list list))"
  shows "sliceIndex this < length flags \<and> flags ! sliceIndex this \<and>
         (\<forall>j<sliceIndex this. \<not> (j < length flags \<and> flags ! j)) \<and>
         (\<forall>args\<in>set log.
            length args = length params \<and>
            take (sliceIndex this) args = take (sliceIndex this) params \<and>
            (\<forall>j<length params. \<not> (j < length flags \<and> flags ! j) \<longrightarrow> args ! j = params ! j)) \<and>
         ((\<forall>j<length flags. flags ! j \<longrightarrow>
              j < length params \<and> (\<exists>xs. params ! j = Arr xs \<and> length xs = n)) \<longrightarrow>
            log = map (scalarArgs flags (sliceIndex this) params) [0..<length log] \<and>
            length log \<le> n \<and>
            (case r of Inr v \<Rightarrow> length log = n | Inl e \<Rightarrow> 0 < length log))"
proof -
  note ix = constructed_indices [OF con]
  note low = sliceIndex_lowest [OF con]
  let ?ix = "vectorizedParameterIndices this"
  have m: "methodName this = m" using constructed_fields(1) [OF con] .
  have v: "call rt this target params (s, []) =
           vectorizeSingularCall this target (Some (recording f)) params (s, [])"
    using fallback_call [of rt this target params "(s, [])"] fb meth m by simp
  have args: "\<forall>args\<in>set log.
            length args = length params \<and>
            take (sliceIndex this) args = take (sliceIndex this) params \<and>
            (\<forall>j<length params. \<not> (j < length flags \<and> flags ! j) \<longrightarrow> args ! j = params ! j)"
  proof (cases "\<exists>idx\<in>set ?ix. js_get params idx = Undefined")
    case True
    from vectorizeSingularCall_undefined [OF ix(1) True, of target "Some (recording f)" "(s, [])"]
      v run have "log = []" by simp
    then show ?thesis by simp
  next
    case False
    then have wf: "\<forall>idx\<in>set ?ix. js_get params idx \<noteq> Undefined" by blast
    show ?thesis
    proof (cases "1 < length ?ix \<and> lengthsDiffer ?ix params")
      case True
      then have "1 < length ?ix" "lengthsDiffer ?ix params" by blast+
      from vectorizeSingularCall_mismatch [OF wf this, of target "Some (recording f)" "(s, [])"]
        v run have "log = []" by simp
      then show ?thesis by simp
    next
      case neq: False
      let ?xs = "map (elementArgs ?ix params) [0..<resultLength ?ix params]"
      obtain r0 s0 log0 where inv: "invokeEach (recording f target) ?xs (s, []) = (r0, (s0, log0))"
        by (metis surj_pair)
      have "call rt this target params (s, []) = asArray (r0, (s0, log0))"
        using v vectorizeSingularCall_defined [OF ix(1) ix(3) wf neq, of target "recording f" "(s, [])"]
          inv by simp
      with run have "log = log0" by (auto simp: asArray_def split: sum.splits)
      with invokeEach_recording [OF inv] have sub: "set log \<subseteq> set ?xs" by auto
      show ?thesis
      proof (intro ballI)
        fix args assume "args \<in> set log"
        with sub obtain i where a: "args = elementArgs ?ix params i" by auto
        have pass: "\<forall>j<length params. \<not> (j < length flags \<and> flags ! j) \<longrightarrow> args ! j = params ! j"
          using a by (simp add: nth_elementArgs ix(2))
        have "take (sliceIndex this) args = take (sliceIndex this) params"
        proof (rule nth_equalityI)
          show "length (take (sliceIndex this) args) = length (take (sliceIndex this) params)"
            using a by simp
        next
          fix j assume "j < length (take (sliceIndex this) args)"
          then have "j < sliceIndex this" "j < length params" using a by simp_all
          with pass low(3) show "take (sliceIndex this) args ! j = take (sliceIndex this) params ! j"
            by simp
        qed
        with pass a show "length args = length params \<and>
            take (sliceIndex this) args = take (sliceIndex this) params \<and>
            (\<forall>j<length params. \<not> (j < length flags \<and> flags ! j) \<longrightarrow> args ! j = params ! j)"
          by simp
      qed
    qed
  qed
  have exact: "(\<forall>j<length flags. flags ! j \<longrightarrow>
              j < length params \<and> (\<exists>xs. params ! j = Arr xs \<and> length xs = n)) \<longrightarrow>
            log = map (scalarArgs flags (sliceIndex this) params) [0..<length log] \<and>
            length log \<le> n \<and>
            (case r of Inr v \<Rightarrow> length log = n | Inl e \<Rightarrow> 0 < length log)"
    using recorded_log [OF con fb meth run, of n] by blast
  from low args exact show ?thesis by blast
qed

lemma clamp3_run:
  "call (plainObjects [Str ''calc'' \<mapsto> recording clamp3])
     \<lparr> methodName = Str ''calc'', vectorizedParameterFlags = [False, True, False], sliceIndex = 1,
       vectorizedParameterIndices = [1] \<rparr>
     (0 :: nat) [Atom 0, Arr [Atom (- 4), Atom 7], Atom 5] ((), []) =
   ((Inr (Arr [Atom 0, Atom 5]),
     ((), [[Atom 0, Atom (- 4), Atom 5], [Atom 0, Atom 7, Atom 5]]))
    :: (unit error + int val) \<times> (unit \<times> int val list list))"
  by (simp add: call_def specializedFunction_def plainObjects_def vectorizeSingularCall_def
        checkLengths_def elementwise_def js_get_def js_set_def recording_def clamp3_def upt_rec)

theorem static_arguments_pass_through_witness:
  "snd (snd (call (plainObjects [Str ''calc'' \<mapsto> recording clamp3])
       \<lparr> methodName = Str ''calc'', vectorizedParameterFlags = [False, True, False],
         sliceIndex = 1, vectorizedParameterIndices = [1] \<rparr>
       (0 :: nat) [Atom 0, Arr [Atom (- 4), Atom 7], Atom 5] ((), [])
     :: (unit error + int val) \<times> (unit \<times> int val list list)))
   = map (scalarArgs [False, True, False] 1 [Atom 0, Arr [Atom (- 4), Atom 7], Atom 5]) [0..<2] \<and>
   map (scalarArgs [False, True, False] 1 [Atom 0, Arr [Atom (- 4), Atom 7], Atom (5 :: int)]) [0..<2]
   = [[Atom 0, Atom (- 4), Atom 5], [Atom 0, Atom 7, Atom 5]]"
proof -
  let ?rt = "plainObjects [Str ''calc'' \<mapsto> recording clamp3]
               :: (nat, int, unit, unit \<times> int val list list) runtime"
  let ?eng = "\<lparr> methodName = Str ''calc'', vectorizedParameterFlags = [False, True, False],
       sliceIndex = 1, vectorizedParameterIndices = [1] \<rparr>"
  let ?params = "[Atom 0, Arr [Atom (- 4), Atom 7], Atom 5] :: int val list"
  let ?log = "[[Atom 0, Atom (- 4), Atom 5], [Atom 0, Atom 7, Atom 5]] :: int val list list"
  have con: "constructor (Str ''calc'') [False, True, False] = (Inr ?eng :: unit error + ArrayVectorFunction)"
    by (simp add: constructor_def flaggedIndices_def upt_rec)
  have fb: "specializedFunction ?rt (Str ''calc'') 0 = None"
    by (simp add: specializedFunction_def plainObjects_def)
  have meth: "propertyGet ?rt 0 (Str ''calc'') = Some (recording clamp3)"
    by (simp add: plainObjects_def)
  have arrs: "\<forall>j<length [False, True, False]. [False, True, False] ! j \<longrightarrow>
        j < length ?params \<and> (\<exists>xs. ?params ! j = Arr xs \<and> length xs = 2)"
    by (simp add: nth_Cons split: nat.splits)
  note w = static_arguments_pass_through [OF con fb meth clamp3_run, of 2]
  from w arrs have "?log = map (scalarArgs [False, True, False] (sliceIndex ?eng) ?params) [0..<length ?log]"
    by blast
  then have a: "?log = map (scalarArgs [False, True, False] 1 ?params) [0..<2]"
    by (simp add: numeral_2_eq_2)
  have b: "snd (snd (call ?rt ?eng 0 ?params ((), []))) = ?log"
    using clamp3_run by simp
  from a b show ?thesis by simp
qed

lemma specialized_resolves:
  assumes "getMetadata (metadataStore rt) (prototypeChain rt target) m = Some sp"
    and "sp = Function g \<or> (\<exists>k. sp = Named k \<and> k \<noteq> Str [] \<and> propertyGet rt target k = Some g)"
  shows "specializedFunction rt m target = Some g"
proof -
  from assms(2) show ?thesis
  proof
    assume "sp = Function g"
    with assms(1) show ?thesis by (simp add: specializedFunction_def)
  next
    assume "\<exists>k. sp = Named k \<and> k \<noteq> Str [] \<and> propertyGet rt target k = Some g"
    then obtain k where k: "sp = Named k" "k \<noteq> Str []" "propertyGet rt target k = Some g" by blast
    then have "truthy (Named k :: ('a, 'b, 'c, 'd) special)" by (cases k) simp_all
    with assms(1) k show ?thesis by (simp add: specializedFunction_def)
  qed
qed

text \<open>
  C2. When the value registered for the target and the method name resolves
  to a function \<open>g\<close> (it is a function, or a non-empty name or a symbol that the target
  has a member for), \<open>call\<close> of \<^verbatim>\<open>vectorized.ts\<close>, and that of \<^verbatim>\<open>unnamed/part_001\<close>,
  is \<open>g\<close> on the target and on exactly the arguments of the call: nothing is checked
  before. The \<^verbatim>\<open>call\<close> of \<^verbatim>\<open>unnamed/part_000\<close> checks the lengths first: it fails as
  the check fails, and is \<open>g\<close> on the same arguments when the check passes.
\<close>
theorem specialized_path_validation:
  assumes md: "getMetadata (metadataStore rt) (prototypeChain rt target) m = Some sp"
    and res: "sp = Function g \<or> (\<exists>k. sp = Named k \<and> k \<noteq> Str [] \<and> propertyGet rt target k = Some g)"
  shows "(methodName this = m \<longrightarrow> call rt this target params s = g target params s) \<and>
         (methodName_single this1 = m \<longrightarrow> call_single rt this1 target params s = g target params s) \<and>
         (methodName_ix this0 = m \<longrightarrow>
            call_ix rt this0 target params s =
              (case checkLengths (vectorizedParameterIndices_ix this0) params of
                 Inl e \<Rightarrow> (Inl e, s)
               | Inr u \<Rightarrow> g target params s))"
  using specialized_resolves [OF md res]
  by (auto simp: call_def call_single_def call_ix_def split: sum.splits)

theorem specialized_path_validation_counterexample:
  "specializedFunction (inheriting (Some (Function sub_vectorized)) (\<lambda>t. [Str ''calc'' \<mapsto> sub]))
      (Str ''calc'') (0 :: nat) = Some sub_vectorized \<and>
   call_ix (inheriting (Some (Function sub_vectorized)) (\<lambda>t. [Str ''calc'' \<mapsto> sub]))
      \<lparr> methodName_ix = Str ''calc'', vectorizedParameterIndices_ix = [0, 1], sliceIndex_ix = 0 \<rparr>
      (0 :: nat) [Arr [Atom 5, Atom 5], Arr [Atom 2]] (0 :: nat)
     = ((Inl LengthMismatchError, 0) :: (unit error + int val) \<times> nat) \<and>
   sub_vectorized (0 :: nat) [Arr [Atom 5, Atom 5], Arr [Atom 2]] (0 :: nat)
     = ((Inr (Arr [Atom 3, Undefined]), 0) :: (unit error + int val) \<times> nat)"
  by (simp add: specializedFunction_def inheriting_def vectorized_def defineMetadata_def call_ix_def checkLengths_def js_get_def
        sub_vectorized_def upt_rec)

theorem specialized_path_validation_witness:
  "call (inheriting (Some (Function sub_vectorized)) (\<lambda>t. [Str ''calc'' \<mapsto> sub]))
      \<lparr> methodName = Str ''calc'', vectorizedParameterFlags = [True, True], sliceIndex = 0,
        vectorizedParameterIndices = [0, 1] \<rparr>
      (0 :: nat) [Arr [Atom 5, Atom 5], Arr [Atom 2]] (0 :: nat)
     = ((Inr (Arr [Atom 3, Undefined]), 0) :: (unit error + int val) \<times> nat) \<and>
   call_ix (inheriting (Some (Function sub_vectorized)) (\<lambda>t. [Str ''calc'' \<mapsto> sub]))
      \<lparr> methodName_ix = Str ''calc'', vectorizedParameterIndices_ix = [0, 1], sliceIndex_ix = 0 \<rparr>
      (0 :: nat) [Arr [Atom 5, Atom 5], Arr [Atom 2, Atom 3]] (0 :: nat)
     = ((Inr (Arr [Atom 3, Atom 2]), 0) :: (unit error + int val) \<times> nat)"
proof -
  let ?rt = "inheriting (Some (Function sub_vectorized)) (\<lambda>t. [Str ''calc'' \<mapsto> sub])
               :: (nat, int, unit, nat) runtime"
  have md: "getMetadata (metadataStore ?rt) (prototypeChain ?rt 0) (Str ''calc'') =
            Some (Function sub_vectorized)"
    by (simp add: inheriting_def vectorized_def defineMetadata_def)
  have res: "(Function sub_vectorized :: (nat, int, unit, nat) special) = Function sub_vectorized \<or>
        (\<exists>k. (Function sub_vectorized :: (nat, int, unit, nat) special) = Named k \<and> k \<noteq> Str [] \<and>
             propertyGet ?rt 0 k = Some sub_vectorized)"
    by simp
  note w = specialized_path_validation [OF md res]
  have a: "call ?rt \<lparr> methodName = Str ''calc'', vectorizedParameterFlags = [True, True],
        sliceIndex = 0, vectorizedParameterIndices = [0, 1] \<rparr> 0
        [Arr [Atom 5, Atom 5], Arr [Atom 2]] 0 = (Inr (Arr [Atom 3, Undefined]), 0)"
    using w [THEN conjunct1, of "\<lparr> methodName = Str ''calc'', vectorizedParameterFlags = [True, True],
        sliceIndex = 0, vectorizedParameterIndices = [0, 1] \<rparr>" "[Arr [Atom 5, Atom 5], Arr [Atom 2]]" 0]
    by (simp add: sub_vectorized_def js_get_def upt_rec)
  have b: "call_ix ?rt \<lparr> methodName_ix = Str ''calc'', vectorizedParameterIndices_ix = [0, 1],
        sliceIndex_ix = 0 \<rparr> 0 [Arr [Atom 5, Atom 5], Arr [Atom 2, Atom 3]] 0 =
        (Inr (Arr [Atom 3, Atom 2]), 0)"
    using w [THEN conjunct2, THEN conjunct2, of "\<lparr> methodName_ix = Str ''calc'',
        vectorizedParameterIndices_ix = [0, 1], sliceIndex_ix = 0 \<rparr>"
        "[Arr [Atom 5, Atom 5], Arr [Atom 2, Atom 3]]" 0]
    by (simp add: sub_vectorized_def js_get_def upt_rec checkLengths_def)
  from a b show ?thesis by simp
qed

lemma getMetadata_declared:
  assumes "\<forall>ob\<in>set pre. ob \<noteq> C \<and> md (ob, m) = None"
  shows "getMetadata (vectorized sv C m md) (pre @ C # post) m =
         Some (case sv of Some v \<Rightarrow> v | None \<Rightarrow> Named (Str (String m @ ''_vectorized'')))"
  using assms
  by (induction pre) (simp_all add: vectorized_def defineMetadata_def)

lemma call_named:
  assumes "getMetadata (metadataStore rt) (prototypeChain rt target) (methodName this) = Some (Named k)"
    and "k \<noteq> Str []"
  shows "call rt this target params s =
     (case propertyGet rt target k of
        Some g \<Rightarrow> g target params s
      | None \<Rightarrow> vectorizeSingularCall this target (propertyGet rt target (methodName this)) params s)"
proof -
  from assms(2) have "truthy (Named k :: ('a, 'b, 'c, 'd) special)" by (cases k) simp_all
  with assms(1) show ?thesis by (simp add: call_def specializedFunction_def)
qed

lemma call_function:
  assumes "getMetadata (metadataStore rt) (prototypeChain rt target) (methodName this) = Some (Function g)"
  shows "call rt this target params s = g target params s"
  using assms by (simp add: call_def specializedFunction_def)

text \<open>
  How a declared override resolves. Let the decorator have stored \<open>sv\<close> for the method
  \<open>m\<close> on the object \<open>C\<close>, and let the target be \<open>C\<close> or inherit from it with no nearer
  entry. If \<open>sv\<close> is a name \<open>k\<close> other than the empty string (or absent, which stands for
  the name \<open>m\<close> followed by \<open>_vectorized\<close>), every \<open>call\<close> reads the member \<open>k\<close> of the
  target it is given, in the object world of that call, and invokes it with that target as
  receiver; without such a member it runs the fallback. If \<open>sv\<close> is a function, \<open>call\<close>
  invokes that function, whatever the members of the target are.
\<close>

theorem override_resolution:
  assumes decl: "metadataStore rt = vectorized sv C m md"
    and inh: "prototypeChain rt target = pre @ C # post"
    and own: "\<forall>ob\<in>set pre. ob \<noteq> C \<and> md (ob, m) = None"
    and mn: "methodName this = m"
  shows "(\<forall>k. sv = Some (Named k) \<and> k \<noteq> Str [] \<longrightarrow>
            call rt this target params s =
              (case propertyGet rt target k of
                 Some g \<Rightarrow> g target params s
               | None \<Rightarrow> vectorizeSingularCall this target (propertyGet rt target m) params s)) \<and>
         (sv = None \<longrightarrow>
            call rt this target params s =
              (case propertyGet rt target (Str (String m @ ''_vectorized'')) of
                 Some g \<Rightarrow> g target params s
               | None \<Rightarrow> vectorizeSingularCall this target (propertyGet rt target m) params s)) \<and>
         (\<forall>g. sv = Some (Function g) \<longrightarrow> call rt this target params s = g target params s)"
proof -
  have md: "getMetadata (metadataStore rt) (prototypeChain rt target) (methodName this) =
            Some (case sv of Some v \<Rightarrow> v | None \<Rightarrow> Named (Str (String m @ ''_vectorized'')))"
    using getMetadata_declared [OF own] decl inh mn by simp
  have a: "call rt this target params s =
              (case propertyGet rt target k of
                 Some g \<Rightarrow> g target params s
               | None \<Rightarrow> vectorizeSingularCall this target (propertyGet rt target m) params s)"
    if "sv = Some (Named k)" "k \<noteq> Str []" for k
    using call_named [of rt target this k params s] md that mn
    by (simp cong: option.case_cong)
  have b: "call rt this target params s =
              (case propertyGet rt target (Str (String m @ ''_vectorized'')) of
                 Some g \<Rightarrow> g target params s
               | None \<Rightarrow> vectorizeSingularCall this target (propertyGet rt target m) params s)"
    if "sv = None"
    using call_named [of rt target this "Str (String m @ ''_vectorized'')" params s] md that mn
    by (simp cong: option.case_cong)
  have c: "call rt this target params s = g target params s" if "sv = Some (Function g)" for g
    using call_function [of rt target this g params s] md that by simp
  from a b c show ?thesis by blast
qed

theorem override_resolution_witness:
  "call (inheriting (Some (Named (Str ''bulk'')))
           (\<lambda>t. if t = 1 then [Str ''calc'' \<mapsto> square, Str ''bulk'' \<mapsto> square_vectorized]
                 else [Str ''calc'' \<mapsto> square, Str ''bulk'' \<mapsto> negate_vectorized]))
      \<lparr> methodName = Str ''calc'', vectorizedParameterFlags = [True], sliceIndex = 0,
        vectorizedParameterIndices = [0] \<rparr>
      1 [Arr [Atom 2, Atom 3]] (0 :: nat)
     = ((Inr (Arr [Atom 4, Atom 9]), 0) :: (unit error + int val) \<times> nat) \<and>
   call (inheriting (Some (Named (Str ''bulk'')))
           (\<lambda>t. if t = 1 then [Str ''calc'' \<mapsto> square, Str ''bulk'' \<mapsto> square_vectorized]
                 else [Str ''calc'' \<mapsto> square, Str ''bulk'' \<mapsto> negate_vectorized]))
      \<lparr> methodName = Str ''calc'', vectorizedParameterFlags = [True], sliceIndex = 0,
        vectorizedParameterIndices = [0] \<rparr>
      2 [Arr [Atom 2, Atom 3]] (0 :: nat)
     = ((Inr (Arr [Atom (- 2), Atom (- 3)]), 0) :: (unit error + int val) \<times> nat)"
proof -
  let ?mem = "\<lambda>t :: nat. if t = 1 then [Str ''calc'' \<mapsto> square, Str ''bulk'' \<mapsto> square_vectorized]
                 else [Str ''calc'' \<mapsto> (square :: (nat, int, unit, nat) fn), Str ''bulk'' \<mapsto> negate_vectorized]"
  let ?rt = "inheriting (Some (Named (Str ''bulk''))) ?mem"
  let ?eng = "\<lparr> methodName = Str ''calc'', vectorizedParameterFlags = [True], sliceIndex = 0,
        vectorizedParameterIndices = [0] \<rparr>"
  have decl: "metadataStore ?rt = vectorized (Some (Named (Str ''bulk''))) 0 (Str ''calc'') Map.empty"
    by (simp add: inheriting_def)
  have inh1: "prototypeChain ?rt 1 = [1] @ 0 # []" and inh2: "prototypeChain ?rt 2 = [2] @ 0 # []"
    by (simp_all add: inheriting_def)
  have own1: "\<forall>ob\<in>set [1 :: nat]. ob \<noteq> 0 \<and>
                (Map.empty :: nat \<times> propkey \<rightharpoonup> (nat, int, unit, nat) special) (ob, Str ''calc'') = None"
    and own2: "\<forall>ob\<in>set [2 :: nat]. ob \<noteq> 0 \<and>
                (Map.empty :: nat \<times> propkey \<rightharpoonup> (nat, int, unit, nat) special) (ob, Str ''calc'') = None"
    by simp_all
  have mn: "methodName ?eng = Str ''calc''" by simp
  note w1 = override_resolution [OF decl inh1 own1 mn, of "[Arr [Atom 2, Atom 3]]" 0, THEN conjunct1]
  note w2 = override_resolution [OF decl inh2 own2 mn, of "[Arr [Atom 2, Atom 3]]" 0, THEN conjunct1]
  have a: "call ?rt ?eng 1 [Arr [Atom 2, Atom 3]] 0 = (Inr (Arr [Atom 4, Atom 9]), 0)"
    using w1 by (simp add: inheriting_def square_vectorized_def)
  have b: "call ?rt ?eng 2 [Arr [Atom 2, Atom 3]] 0 = (Inr (Arr [Atom (- 2), Atom (- 3)]), 0)"
    using w2 by (simp add: inheriting_def negate_vectorized_def)
  from a b show ?thesis by simp
qed

text \<open>
  C6. A declared name is resolved at each call against the target of that call, and a
  declared function is used as it was captured: for every name but one this is what
  \<open>call\<close> does (\<open>override_resolution\<close> above). The empty string is the exception. The
  decorator stores it as the declared name, and the target below has a member of that name,
  a bulk function that negates; yet \<open>call\<close> does not read that member: it runs the
  elementwise fallback on the scalar method and returns the squares.
\<close>

theorem empty_name_override_not_read:
  "getMetadata
      (metadataStore (inheriting (Some (Named (Str []))) (\<lambda>t. [Str ''calc'' \<mapsto> square, Str [] \<mapsto> negate_vectorized])))
      (prototypeChain (inheriting (Some (Named (Str []))) (\<lambda>t. [Str ''calc'' \<mapsto> square, Str [] \<mapsto> negate_vectorized])) 1)
      (Str ''calc'')
     = Some (Named (Str []) :: (nat, int, unit, nat) special) \<and>
   propertyGet (inheriting (Some (Named (Str []))) (\<lambda>t. [Str ''calc'' \<mapsto> square, Str [] \<mapsto> negate_vectorized]))
      1 (Str [])
     = Some (negate_vectorized :: (nat, int, unit, nat) fn) \<and>
   call (inheriting (Some (Named (Str []))) (\<lambda>t. [Str ''calc'' \<mapsto> square, Str [] \<mapsto> negate_vectorized]))
      \<lparr> methodName = Str ''calc'', vectorizedParameterFlags = [True], sliceIndex = 0,
        vectorizedParameterIndices = [0] \<rparr>
      1 [Arr [Atom 2, Atom 3]] (0 :: nat)
     = ((Inr (Arr [Atom 4, Atom 9]), 0) :: (unit error + int val) \<times> nat) \<and>
   negate_vectorized (1 :: nat) [Arr [Atom 2, Atom 3]] (0 :: nat)
     = ((Inr (Arr [Atom (- 2), Atom (- 3)]), 0) :: (unit error + int val) \<times> nat)"
  by (simp add: inheriting_def vectorized_def defineMetadata_def call_def specializedFunction_def
        vectorizeSingularCall_def checkLengths_def elementwise_def js_get_def js_set_def
        square_def negate_vectorized_def upt_rec)

lemma take_store_write: "N \<le> a \<Longrightarrow> take N (store_write h a i v) = take N h"
  by (simp add: store_write_def)

lemma take_alloc: "N \<le> length h \<Longrightarrow> alloc xs h = (a, h') \<Longrightarrow> take N h' = take N h \<and> N \<le> a"
  by (auto simp: alloc_def)

lemma take_eq_length: "take N h' = take N h \<Longrightarrow> N \<le> length h \<Longrightarrow> N \<le> length h'"
  by (metis length_take min.absorb2 min.cobounded1)

lemma populate_s_frame:
  "N \<le> da \<Longrightarrow>
   populate_s indices slice items i ks da h = (Inr h' :: 'e error + 'a store) \<Longrightarrow>
   take N h' = take N h"
proof (induction ks arbitrary: h)
  case Nil
  then show ?case by simp
next
  case (Cons k ks)
  from Cons.prems(2) obtain v where
    v: "s_elem h (s_get items k) i = (Inr v :: 'e error + 'a sval)"
    and rest: "populate_s indices slice items i ks da (store_write h da (indices ! k - slice) v)
                 = (Inr h' :: 'e error + 'a store)"
    by (auto simp: Let_def split: sum.splits)
  from Cons.IH [OF Cons.prems(1) rest] take_store_write [OF Cons.prems(1)]
  show ?case by simp
qed

lemma elementLoop_s_frame:
  assumes da: "N \<le> da" and ra: "N \<le> ra"
    and mb: "\<forall>args hx sx. N \<le> length hx \<longrightarrow> take N (fst (snd (mb args hx sx))) = take N hx"
  shows "N \<le> length h \<Longrightarrow>
         take N (fst (snd (elementLoop_s indices slice items mb is da ra h s))) = take N h"
proof (induction "is" arbitrary: h s)
  case Nil
  then show ?case by simp
next
  case (Cons i rest)
  show ?case
  proof (cases "populate_s indices slice items i [0..<length indices] da h :: 'c error + 'a store")
    case (Inl e)
    then show ?thesis by simp
  next
    case (Inr h1)
    from populate_s_frame [OF da Inr] have t1: "take N h1 = take N h" .
    have l1: "N \<le> length h1" using take_eq_length [OF t1 Cons.prems] .
    obtain r h2 s2 where m: "mb (arrayAt h1 da) h1 s = (r, h2, s2)" by (metis prod_cases3)
    with mb l1 have t2: "take N h2 = take N h1" by (metis fst_conv snd_conv)
    have l2: "N \<le> length h2" using take_eq_length [OF t2 l1] .
    show ?thesis
    proof (cases r)
      case (Inl e)
      with Inr m t1 t2 show ?thesis by simp
    next
      case rv: (Inr v)
      have l3: "N \<le> length (store_write h2 ra i v)" using l2 by (simp add: store_write_def)
      from Cons.IH [OF l3, of s2] take_store_write [OF ra, of h2 i v] Inr m rv t1 t2
      show ?thesis by simp
    qed
  qed
qed

lemma elementwise_s_frame:
  assumes f: "\<forall>args hx sx. N \<le> length hx \<longrightarrow> take N (fst (snd (f target args hx sx))) = take N hx"
    and len: "N \<le> length h"
  shows "take N (fst (snd (elementwise_s indices slice target (Some f) params h s))) = take N h"
proof (cases "s_length h (s_get (map (s_get (arrayAt h params)) indices) 0) :: 'c error + nat option")
  case (Inl e)
  then show ?thesis by (simp add: elementwise_def elementwise_s_def)
next
  case (Inr len0)
  let ?h1 = "h @ [replicate (new_Array_length len0) SUndefined]"
  let ?h2 = "?h1 @ [take slice (arrayAt ?h1 params)]"
  let ?h3 = "?h2 @ [drop slice (arrayAt ?h2 params)]"
  have mb: "\<forall>args hx sx. N \<le> length hx \<longrightarrow>
       take N (fst (snd ((\<lambda>args. f target (arrayAt ?h3 (Suc (length h)) @ args)) args hx sx))) = take N hx"
    using f by simp
  have "take N (fst (snd (elementLoop_s indices slice (map (s_get (arrayAt h params)) indices)
           (\<lambda>args. f target (arrayAt ?h3 (Suc (length h)) @ args))
           [0..<length (arrayAt ?h3 (length h))] (Suc (Suc (length h))) (length h) ?h3 s))) = take N ?h3"
    by (rule elementLoop_s_frame [OF _ _ mb]) (use len in simp_all)
  then show ?thesis using Inr len by (simp add: elementwise_s_def alloc_def Let_def)
qed

lemma elementwise_s_frame_none:
  assumes len: "N \<le> length h"
  shows "take N (fst (snd (elementwise_s indices slice target None params h s))) = take N h"
  using len by (simp add: elementwise_s_def alloc_def Let_def split: sum.splits)

text \<open>
  C10. On the fallback path \<open>call\<close> changes no array that exists when it is called: if
  the scalar method leaves those arrays as they are, then after the call the store still
  begins with the store of before, array for array. What \<open>call\<close> writes (the dynamic
  window and the result) goes to arrays it has made itself; the argument list, the
  vectorized source arrays and every other array of the caller are only read. The same
  holds for the \<^verbatim>\<open>call\<close> of \<^verbatim>\<open>unnamed/part_000\<close>.
\<close>
theorem caller_arrays_not_mutated:
  assumes f: "\<forall>args hx sx. length h \<le> length hx \<longrightarrow>
                take (length h) (fst (snd (f target args hx sx))) = take (length h) hx"
  shows "take (length h) (fst (snd (call_s None (Some f) this target args h s))) = h \<and>
         take (length h) (fst (snd (call_ix_s None (Some f) this0 target args h s))) = h"
proof -
  have a: "take (length h) (fst (snd (elementwise_s indices slice target (Some f) (length h) (h @ [args]) s))) = h"
    for indices slice
    using elementwise_s_frame [where N = "length h" and f = f and target = target
            and h = "h @ [args]" and indices = indices and slice = slice
            and params = "length h" and s = s, OF f]
    by simp
  have "take (length h) (fst (snd (call_s None (Some f) this target args h s))) = h"
    using a by (simp add: call_s_def alloc_def vectorizeSingularCall_s_def split: sum.splits)
  moreover have "take (length h) (fst (snd (call_ix_s None (Some f) this0 target args h s))) = h"
    using a by (simp add: call_ix_s_def alloc_def split: sum.splits)
  ultimately show ?thesis by blast
qed

theorem caller_arrays_not_mutated_witness:
  "fst (snd (call_s None (Some scaleThenAdd_s)
       \<lparr> methodName = Str ''calc'', vectorizedParameterFlags = [False, True], sliceIndex = 1,
         vectorizedParameterIndices = [1] \<rparr>
       (0 :: nat) [SAtom 3, SRef 0] [[SAtom 1, SAtom 2, SAtom 3]] (0 :: nat)
     :: (unit error + int sval) \<times> int store \<times> nat))
   = [[SAtom 1, SAtom 2, SAtom 3], [SAtom 3, SRef 0], [SAtom 4, SAtom 7, SAtom 10], [SAtom 3], [SAtom 3]] \<and>
   take 1 (fst (snd (call_s None (Some scaleThenAdd_s)
       \<lparr> methodName = Str ''calc'', vectorizedParameterFlags = [False, True], sliceIndex = 1,
         vectorizedParameterIndices = [1] \<rparr>
       (0 :: nat) [SAtom 3, SRef 0] [[SAtom 1, SAtom 2, SAtom 3]] (0 :: nat)
     :: (unit error + int sval) \<times> int store \<times> nat)))
   = [[SAtom 1, SAtom 2, SAtom 3]]"
proof -
  have f: "\<forall>args hx sx. length [[SAtom 1, SAtom 2, SAtom (3 :: int)]] \<le> length hx \<longrightarrow>
             take (length [[SAtom 1, SAtom 2, SAtom (3 :: int)]])
               (fst (snd ((scaleThenAdd_s :: (nat, int, unit, nat) sfn) 0 args hx sx))) =
             take (length [[SAtom 1, SAtom 2, SAtom (3 :: int)]]) hx"
    by (auto simp: scaleThenAdd_s_def split: list.splits sval.splits)
  have run: "fst (snd (call_s None (Some scaleThenAdd_s)
       \<lparr> methodName = Str ''calc'', vectorizedParameterFlags = [False, True], sliceIndex = 1,
         vectorizedParameterIndices = [1] \<rparr>
       (0 :: nat) [SAtom 3, SRef 0] [[SAtom 1, SAtom 2, SAtom 3]] (0 :: nat)
     :: (unit error + int sval) \<times> int store \<times> nat))
   = [[SAtom 1, SAtom 2, SAtom 3], [SAtom 3, SRef 0], [SAtom 4, SAtom 7, SAtom 10], [SAtom 3], [SAtom 3]]"
    by (simp add: call_s_def alloc_def vectorizeSingularCall_s_def checkLengths_s_def
          elementwise_s_def arrayAt_def s_get_def s_set_def store_write_def scaleThenAdd_s_def
          upt_rec nth_append)
  from caller_arrays_not_mutated [where h = "[[SAtom 1, SAtom 2, SAtom (3 :: int)]]"
         and f = "scaleThenAdd_s :: (nat, int, unit, nat) sfn" and target = 0
         and this = "\<lparr> methodName = Str ''calc'', vectorizedParameterFlags = [False, True],
           sliceIndex = 1, vectorizedParameterIndices = [1] \<rparr>"
         and args = "[SAtom 3, SRef 0]" and s = 0, OF f, THEN conjunct1] run
  show ?thesis by simp
qed

section \<open>The other revisions on the fallback path\<close>

text \<open>
  Where no override resolves, the \<^verbatim>\<open>call\<close> of \<^verbatim>\<open>unnamed/part_000\<close> is the \<^verbatim>\<open>call\<close> of
  \<^verbatim>\<open>vectorized.ts\<close> for the same positions, and so is that of \<^verbatim>\<open>unnamed/part_001\<close> for its
  one position, unless the argument there is a value without \<^verbatim>\<open>length\<close> (where the older
  loop makes no iteration). What is proved of the fallback path above holds of them too.
  The constructor of \<^verbatim>\<open>unnamed/part_000\<close> rejects the empty list of positions with the same
  error.
\<close>

lemma constructor_ix_empty:
  "constructor_ix m (Some []) = (Inl ConfigurationError :: 'e error + VectorFunction_ix)"
  by (simp add: constructor_ix_def)

lemma constructor_ix_default:
  "constructor_ix m None =
   (Inr \<lparr> methodName_ix = m, vectorizedParameterIndices_ix = [0], sliceIndex_ix = 0 \<rparr>
    :: 'e error + VectorFunction_ix)"
  by (simp add: constructor_ix_def)

lemma call_ix_fallback:
  assumes "specializedFunction rt (methodName this) target = None"
    and "methodName_ix this0 = methodName this"
    and "vectorizedParameterIndices_ix this0 = vectorizedParameterIndices this"
    and "sliceIndex_ix this0 = sliceIndex this"
  shows "call_ix rt this0 target params s = call rt this target params s"
  using assms by (simp add: call_ix_def call_def vectorizeSingularCall_def split: sum.splits)

lemma populate_single:
  "populate [idx] idx [items] i [0..<length [idx]] dynamicArgs =
   (case js_elem items i of Inl e \<Rightarrow> Inl e | Inr v \<Rightarrow> Inr (js_set dynamicArgs 0 v))"
  by (simp add: js_get_def split: sum.splits)

lemma singleLoop_elementLoop:
  "singleLoop items mb is dynamicArgs result s =
   elementLoop [idx] idx [items] mb is dynamicArgs result s"
proof (induction "is" arbitrary: dynamicArgs result s)
  case Nil
  then show ?case by simp
next
  case (Cons i rest)
  show ?case
    using Cons.IH
    by (simp add: populate_single [simplified] Let_def split: sum.splits prod.splits)
qed

lemma call_single_fallback:
  assumes fb: "specializedFunction rt (methodName this) target = None"
    and m: "methodName_single this1 = methodName this"
    and ix: "vectorizedParameterIndices this = [vectorizedParameterIndex this1]"
    and sl: "sliceIndex this = vectorizedParameterIndex this1"
    and arr: "\<forall>a. js_get params (vectorizedParameterIndex this1) \<noteq> Atom a"
  shows "call_single rt this1 target params s = call rt this target params s"
proof (cases "js_get params (vectorizedParameterIndex this1)")
  case Undefined
  then show ?thesis
    using fb m ix sl
    by (simp add: call_single_def call_def vectorizeSingularCall_def checkLengths_def
          elementwise_def js_get_def split: if_splits)
next
  case (Atom a)
  with arr show ?thesis by simp
next
  case (Arr xs)
  then have "js_get (map (js_get params) [vectorizedParameterIndex this1]) 0 = Arr xs"
    by (simp add: js_get_def)
  with Arr show ?thesis
    using fb m ix sl
    by (simp add: call_single_def call_def vectorizeSingularCall_def checkLengths_def
          elementwise_def Let_def
          singleLoop_elementLoop [where idx = "vectorizedParameterIndex this1"]
          split: option.splits)
qed

end
